theory Spec2Isabelle
  imports Complex_Main
begin

section \<open>Values shared by the pipeline scripts\<close>

text \<open>
  The scripts exchange Python dictionaries that come out of \<open>json.loads\<close>. A JSON
  value is modelled as a datatype; an object is an association list, looked up with
  \<open>map_of\<close>. Numbers are the rationals they denote (Python compares an \<open>int\<close> and a
  \<open>float\<close> by value); the non-finite floats are outside the model.
  Strings are lists of 8-bit characters, each read as the code point of that number.
\<close>

datatype json =
    JNull
  | JBool bool
  | JNum rat
  | JStr string
  | JArr "json list"
  | JObj "(string \<times> json) list"

datatype py_error = TypeError | AttributeError | ValueError

text \<open>\<open>d.get(k, default)\<close> on a dictionary.\<close>

definition dict_get :: "(string \<times> json) list \<Rightarrow> string \<Rightarrow> json \<Rightarrow> json" where
  "dict_get d k dflt = (case map_of d k of None \<Rightarrow> dflt | Some v \<Rightarrow> v)"

text \<open>Python's truth value of a JSON value (\<open>if x:\<close>, \<open>not x\<close>).\<close>

fun truthy :: "json \<Rightarrow> bool" where
  "truthy JNull = False"
| "truthy (JBool b) = b"
| "truthy (JNum r) = (r \<noteq> 0)"
| "truthy (JStr s) = (s \<noteq> [])"
| "truthy (JArr xs) = (xs \<noteq> [])"
| "truthy (JObj d) = (d \<noteq> [])"

text \<open>
  The number an ordering comparison (\<open><\<close>, \<open><=\<close>, \<open>>\<close>) reads from a value: \<open>bool\<close> is a
  subclass of \<open>int\<close>; for every other type the comparison with a number raises
  \<open>TypeError\<close> (\<open>None\<close> here).
\<close>

fun num_of :: "json \<Rightarrow> rat option" where
  "num_of (JNum r) = Some r"
| "num_of (JBool b) = Some (if b then 1 else 0)"
| "num_of _ = None"

text \<open>A list or a dictionary cannot be a dictionary key: \<open>D.get(v, ...)\<close> raises on it.\<close>

fun hashable :: "json \<Rightarrow> bool" where
  "hashable (JArr xs) = False"
| "hashable (JObj d) = False"
| "hashable _ = True"

subsection \<open>Strings\<close>

text \<open>\<open>str.isspace\<close> and the regular expression class \<open>\s\<close> on code points below 256.\<close>

definition is_space :: "char \<Rightarrow> bool" where
  "is_space c = (let n = (of_char c :: nat)
     in (9 \<le> n \<and> n \<le> 13) \<or> (28 \<le> n \<and> n \<le> 32) \<or> n = 133 \<or> n = 160)"

text \<open>\<open>text.split()\<close>: the maximal runs of characters that are not white space.\<close>

fun split_acc :: "string \<Rightarrow> string \<Rightarrow> string list" where
  "split_acc cur [] = (if cur = [] then [] else [cur])"
| "split_acc cur (c # cs) =
     (if is_space c then (if cur = [] then split_acc [] cs else cur # split_acc [] cs)
      else split_acc (cur @ [c]) cs)"

definition count_words :: "string \<Rightarrow> nat" where
  "count_words text = length (split_acc [] text)"

definition startswith :: "string \<Rightarrow> string \<Rightarrow> bool" where
  "startswith s p = (take (length p) s = p)"

text \<open>\<open>p in s\<close> on strings: \<open>p\<close> occurs in \<open>s\<close> as a contiguous run.\<close>

fun contains :: "string \<Rightarrow> string \<Rightarrow> bool" where
  "contains [] p = (p = [])"
| "contains (c # cs) p = (startswith (c # cs) p \<or> contains cs p)"

text \<open>\<open>str.lower\<close> on code points below 256.\<close>

definition lower_char :: "char \<Rightarrow> char" where
  "lower_char c = (let n = (of_char c :: nat)
     in if (65 \<le> n \<and> n \<le> 90) \<or> (192 \<le> n \<and> n \<le> 222 \<and> n \<noteq> 215)
        then char_of (n + 32) else c)"

definition lower :: "string \<Rightarrow> string" where
  "lower s = map lower_char s"

section \<open>Safeguard Gate (fase\_r5\_safeguards.py)\<close>

record word_target =
  wt_min :: nat
  wt_max :: nat

definition WORD_TARGETS :: "string \<Rightarrow> word_target option" where
  "WORD_TARGETS = map_of
     [(''rich'', \<lparr>wt_min = 110, wt_max = 140\<rparr>),
      (''moderate'', \<lparr>wt_min = 85, wt_max = 115\<rparr>),
      (''minimal'', \<lparr>wt_min = 55, wt_max = 85\<rparr>),
      (''none'', \<lparr>wt_min = 30, wt_max = 60\<rparr>)]"

text \<open>\<open>WORD_TARGETS.get(quality, WORD_TARGETS['none'])\<close> for a hashable \<open>quality\<close>.\<close>

definition targets_for :: "json \<Rightarrow> word_target" where
  "targets_for q = (case q of
       JStr s \<Rightarrow> (case WORD_TARGETS s of Some t \<Rightarrow> t
                   | None \<Rightarrow> \<lparr>wt_min = 30, wt_max = 60\<rparr>)
     | _ \<Rightarrow> \<lparr>wt_min = 30, wt_max = 60\<rparr>)"

definition KNOWN_DESTINATIONS :: "int \<Rightarrow> string option" where
  "KNOWN_DESTINATIONS = map_of [(1, ''Calpe''), (2, ''Texel'')]"

definition MAX_HALLUCINATION_RATE :: rat where
  "MAX_HALLUCINATION_RATE = 20 / 100"

definition MAX_HALLUCINATION_RATE_NONE :: rat where
  "MAX_HALLUCINATION_RATE_NONE = 30 / 100"

definition EMBELLISHMENT_BLOCKLIST :: "string list" where
  "EMBELLISHMENT_BLOCKLIST =
     [''unique'', ''modern'', ''cosy'', ''cozy'', ''convenient'', ''charming'',
      ''inviting'', ''vibrant'', ''delightful'', ''exceptional'', ''exquisite'',
      ''stunning'', ''breathtaking'', ''magnificent'', ''spectacular'',
      ''world-class'', ''must-visit'', ''hidden gem'', ''best-kept secret'',
      ''unforgettable'', ''unparalleled'', ''state-of-the-art'',
      ''award-winning'', ''renowned'', ''prestigious'', ''iconic'']"

text \<open>
  The blocking reasons and the warnings are formatted messages in the source. The model
  keeps which rule wrote the message and the values it prints. Rule 6 asks whether a
  reason contains the text \<open>Hallucination rate\<close>: of the five messages only the one of
  rule 2 does (rule 6 writes it in lower case, and a destination id prints as digits).
\<close>

datatype reason =
    HighSeverityClaims nat
  | HallucinationRateExceeds rat rat
  | EmptyContent
  | UnknownDestination int
  | NoSourceData rat

datatype warning =
    WordCountBelow nat nat
  | WordCountAbove nat nat
  | EmbellishmentWords "string list"

fun mentions_hallucination_rate :: "reason \<Rightarrow> bool" where
  "mentions_hallucination_rate (HallucinationRateExceeds r t) = True"
| "mentions_hallucination_rate _ = False"

record validation =
  approved :: bool
  reasons :: "reason list"
  warnings :: "warning list"

text \<open>
  The argument \<open>llm_context_json\<close> is a dictionary, a string that \<open>json.loads\<close> decodes,
  or \<open>None\<close>. \<open>Some v\<close> is the dictionary or the decoded value; \<open>None\<close> is Python's \<open>None\<close>
  or a string that does not decode (the source replaces both by the empty dictionary).
  A value that is not a dictionary and not false has no \<open>get\<close>.
\<close>

definition context_dict :: "json option \<Rightarrow> py_error + (string \<times> json) list" where
  "context_dict a = (case a of
       None \<Rightarrow> Inr []
     | Some v \<Rightarrow> (if \<not> truthy v then Inr []
                  else (case v of JObj d \<Rightarrow> Inr d | _ \<Rightarrow> Inl AttributeError)))"

text \<open>
  Iterating \<open>unsupported_claims\<close>: a list gives its elements; a string gives its
  characters and a dictionary its keys, all of them strings; anything else is not
  iterable.
\<close>

fun iterate :: "json \<Rightarrow> json list option" where
  "iterate (JArr xs) = Some xs"
| "iterate (JStr s) = Some (map (\<lambda>c. JStr [c]) s)"
| "iterate (JObj d) = Some (map (\<lambda>kv. JStr (fst kv)) d)"
| "iterate _ = None"

text \<open>\<open>isinstance(c, dict) and c.get('severity') == 'HIGH'\<close>\<close>

fun is_high :: "json \<Rightarrow> bool" where
  "is_high (JObj c) = (map_of c ''severity'' = Some (JStr ''HIGH''))"
| "is_high _ = False"

text \<open>Rule 3, for non-empty content: the word count against the targets with 20% tolerance.\<close>

definition word_count_warnings :: "string \<Rightarrow> word_target \<Rightarrow> warning list" where
  "word_count_warnings content targets =
     (let actual_words = count_words content;
          min_words = (wt_min targets * 8) div 10;
          max_words = (wt_max targets * 12) div 10
      in if actual_words < min_words then [WordCountBelow actual_words min_words]
         else if actual_words > max_words then [WordCountAbove actual_words max_words]
         else [])"

text \<open>Rule 4, for non-empty content.\<close>

definition embellishment_warnings :: "string \<Rightarrow> warning list" where
  "embellishment_warnings content =
     (let content_lower = lower content;
          found_embellishments = filter (\<lambda>w. contains content_lower w) EMBELLISHMENT_BLOCKLIST
      in if found_embellishments \<noteq> [] then [EmbellishmentWords (take 5 found_embellishments)]
         else [])"

text \<open>
  \<open>validate_content(poi_id, new_content, llm_context_json, destination_id)\<close>. The content
  and the destination id may be \<open>None\<close>. The rules run in the order of the source; an
  exception of the source is an \<open>Inl\<close>.
\<close>

definition validate_content ::
  "int \<Rightarrow> string option \<Rightarrow> json option \<Rightarrow> int option \<Rightarrow> py_error + validation" where
  "validate_content poi_id new_content llm_context_json destination_id =
     (case context_dict llm_context_json of
        Inl e \<Rightarrow> Inl e
      | Inr ctx \<Rightarrow>
          (let data_quality = dict_get ctx ''data_quality'' (JStr ''none'');
               unsupported_claims = dict_get ctx ''unsupported_claims'' (JArr [])
           in case num_of (dict_get ctx ''hallucination_rate'' (JNum 1)) of
                None \<Rightarrow> Inl TypeError
              | Some raw_rate \<Rightarrow>
                  (let hallucination_rate = (if raw_rate > 1 then raw_rate / 100 else raw_rate)
                   in case iterate unsupported_claims of
                        None \<Rightarrow> Inl TypeError
                      | Some claims \<Rightarrow>
                          (let high_severity_claims = filter is_high claims;
                               reasons1 = (if high_severity_claims \<noteq> []
                                           then [HighSeverityClaims (length high_severity_claims)]
                                           else []);
                               threshold = (if data_quality = JStr ''none''
                                            then MAX_HALLUCINATION_RATE_NONE
                                            else MAX_HALLUCINATION_RATE);
                               reasons2 = reasons1 @
                                          (if hallucination_rate > threshold
                                           then [HallucinationRateExceeds hallucination_rate threshold]
                                           else []);
                               has_content = (case new_content of None \<Rightarrow> False
                                              | Some s \<Rightarrow> s \<noteq> [])
                           in if has_content \<and> \<not> hashable data_quality then Inl TypeError
                              else
                                (let content = (case new_content of None \<Rightarrow> [] | Some s \<Rightarrow> s);
                                     warnings3 = (if has_content
                                                  then word_count_warnings content
                                                         (targets_for data_quality)
                                                  else []);
                                     reasons3 = reasons2 @
                                                (if has_content then [] else [EmptyContent]);
                                     warnings4 = warnings3 @
                                                 (if has_content
                                                  then embellishment_warnings content
                                                  else []);
                                     reasons5 = reasons3 @
                                                (case destination_id of
                                                   None \<Rightarrow> []
                                                 | Some d \<Rightarrow>
                                                     (if d \<noteq> 0 \<and> KNOWN_DESTINATIONS d = None
                                                      then [UnknownDestination d] else []));
                                     reasons6 = reasons5 @
                                                (if data_quality = JStr ''none''
                                                    \<and> hallucination_rate > MAX_HALLUCINATION_RATE
                                                    \<and> \<not> list_ex mentions_hallucination_rate reasons5
                                                 then [NoSourceData hallucination_rate] else [])
                                 in Inr \<lparr>approved = (reasons6 = []),
                                         reasons = reasons6,
                                         warnings = warnings4\<rparr>)))))"

section \<open>Generation and verification (fase\_r4\_regeneration.py)\<close>

datatype status = Pending | Approved | Rejected | ReviewRequired | Applied

definition STATUS_MAP :: "string \<Rightarrow> status option" where
  "STATUS_MAP = map_of
     [(''PASS'', Approved),
      (''REVIEW'', Pending),
      (''FAIL'', ReviewRequired),
      (''ERROR'', ReviewRequired)]"

definition REVIEW_THRESHOLD :: rat where
  "REVIEW_THRESHOLD = 20 / 100"

definition WORD_COUNT_RETRIES :: nat where
  "WORD_COUNT_RETRIES = 1"

definition BATCH_SIZE :: nat where
  "BATCH_SIZE = 50"

definition MISTRAL_MODEL_GENERATE :: string where
  "MISTRAL_MODEL_GENERATE = ''mistral-large-latest''"

definition MISTRAL_MODEL_VERIFY :: string where
  "MISTRAL_MODEL_VERIFY = ''mistral-large-latest''"

subsection \<open>Regular expressions of \<open>parse_verification\<close>\<close>

text \<open>
  \<open>re.search(r'\{[\s\S]*\}', response).group()\<close>: the search stops at the first brace
  that opens, and the greedy middle part runs to the last brace that closes after it.
\<close>

definition json_object_span :: "string \<Rightarrow> string option" where
  "json_object_span response =
     (let t = dropWhile (\<lambda>c. c \<noteq> CHR ''{'') response;
          r = rev (dropWhile (\<lambda>c. c \<noteq> CHR ''}'') (rev t))
      in if r = [] then None else Some r)"

text \<open>\<open>re.search\<close>: the first position of the text where the pattern matches.\<close>

fun re_search :: "(string \<Rightarrow> 'a option) \<Rightarrow> string \<Rightarrow> 'a option" where
  "re_search m [] = m []"
| "re_search m (c # cs) = (case m (c # cs) of Some x \<Rightarrow> Some x | None \<Rightarrow> re_search m cs)"

definition strip_prefix :: "string \<Rightarrow> string \<Rightarrow> string option" where
  "strip_prefix p s = (if startswith s p then Some (drop (length p) s) else None)"

text \<open>
  The common head of the four field patterns, \<open>"key"\s*:\s*\<close>, matched at the start of
  the text; the result is the rest of the text. White space is followed by a character
  that is not white space in each pattern, so the greedy \<open>\s*\<close> never gives back.
\<close>

definition match_key :: "string \<Rightarrow> string \<Rightarrow> string option" where
  "match_key key s =
     (case strip_prefix (CHR 0x22 # key @ [CHR 0x22]) s of
        None \<Rightarrow> None
      | Some r1 \<Rightarrow>
          (case dropWhile is_space r1 of
             [] \<Rightarrow> None
           | c # r2 \<Rightarrow> (if c = CHR '':'' then Some (dropWhile is_space r2) else None)))"

text \<open>\<open>"verdict"\s*:\s*"(PASS|REVIEW|FAIL)"\<close>, group 1.\<close>

definition match_verdict_at :: "string \<Rightarrow> string option" where
  "match_verdict_at s =
     (case match_key ''verdict'' s of
        None \<Rightarrow> None
      | Some r \<Rightarrow>
          (case r of
             [] \<Rightarrow> None
           | c # v \<Rightarrow>
               (if c \<noteq> CHR 0x22 then None
                else if startswith v (''PASS'' @ [CHR 0x22]) then Some ''PASS''
                else if startswith v (''REVIEW'' @ [CHR 0x22]) then Some ''REVIEW''
                else if startswith v (''FAIL'' @ [CHR 0x22]) then Some ''FAIL''
                else None)))"

definition verdict_match :: "string \<Rightarrow> string option" where
  "verdict_match response = re_search match_verdict_at response"

definition is_digit :: "char \<Rightarrow> bool" where
  "is_digit c = (let n = (of_char c :: nat) in 48 \<le> n \<and> n \<le> 57)"

text \<open>\<open>"hallucination_rate"\s*:\s*([\d.]+)\<close>, group 1.\<close>

definition match_rate_at :: "string \<Rightarrow> string option" where
  "match_rate_at s =
     (case match_key ''hallucination_rate'' s of
        None \<Rightarrow> None
      | Some r \<Rightarrow>
          (let g = takeWhile (\<lambda>c. is_digit c \<or> c = CHR ''.'') r
           in if g = [] then None else Some g))"

text \<open>\<open>"unsupported"\s*:\s*(\d+)\<close> and \<open>"total_claims"\s*:\s*(\d+)\<close>, group 1.\<close>

definition match_count_at :: "string \<Rightarrow> string \<Rightarrow> string option" where
  "match_count_at key s =
     (case match_key key s of
        None \<Rightarrow> None
      | Some r \<Rightarrow>
          (let g = takeWhile is_digit r
           in if g = [] then None else Some g))"

text \<open>\<open>int(g)\<close> on a string of digits.\<close>

definition int_of_digits :: "string \<Rightarrow> nat" where
  "int_of_digits g = foldl (\<lambda>n c. 10 * n + ((of_char c :: nat) - 48)) 0 g"

text \<open>
  \<open>float(g)\<close> on a string of digits and dots: the decimal it writes, or \<open>ValueError\<close>
  (\<open>None\<close>) when it has two dots or no digit.
\<close>

definition float_of :: "string \<Rightarrow> rat option" where
  "float_of g =
     (let ip = takeWhile (\<lambda>c. c \<noteq> CHR ''.'') g;
          rest = dropWhile (\<lambda>c. c \<noteq> CHR ''.'') g
      in if rest = [] then (if ip = [] then None else Some (of_nat (int_of_digits ip)))
         else (let fp = tl rest
               in if CHR ''.'' \<in> set fp \<or> (ip = [] \<and> fp = []) then None
                  else Some (of_nat (int_of_digits ip)
                             + of_nat (int_of_digits fp) / 10 ^ length fp)))"

subsection \<open>\<open>parse_verification\<close>\<close>

text \<open>
  The verdict the source fills in when the decoded object has none. \<open>rate == 0\<close> is
  false for a value that is not a number, and the comparison after it raises.
\<close>

definition verdict_from_rate :: "json \<Rightarrow> py_error + string" where
  "verdict_from_rate rate =
     (case num_of rate of
        None \<Rightarrow> Inl TypeError
      | Some r \<Rightarrow>
          (if r = 0 then Inr ''PASS''
           else if r \<le> REVIEW_THRESHOLD then Inr ''REVIEW''
           else Inr ''FAIL''))"

text \<open>The strict attempt, on the decoded object.\<close>

definition ensure_verdict :: "(string \<times> json) list \<Rightarrow> py_error + (string \<times> json) list" where
  "ensure_verdict parsed =
     (if map_of parsed ''verdict'' = None
      then (case verdict_from_rate (dict_get parsed ''hallucination_rate'' (JNum 0)) of
              Inl e \<Rightarrow> Inl e
            | Inr v \<Rightarrow> Inr (parsed @ [(''verdict'', JStr v)]))
      else Inr parsed)"

text \<open>
  The pattern attempt, in the handler of \<open>JSONDecodeError\<close>: \<open>None\<close> when the verdict
  pattern does not match (the source falls through to the scan for a keyword).
\<close>

definition extract_fields :: "string \<Rightarrow> (py_error + (string \<times> json) list) option" where
  "extract_fields response =
     (case verdict_match response of
        None \<Rightarrow> None
      | Some verdict \<Rightarrow>
          Some (case (case re_search match_rate_at response of
                        None \<Rightarrow> Some (1 / 2)
                      | Some g \<Rightarrow> float_of g) of
                  None \<Rightarrow> Inl ValueError
                | Some rate \<Rightarrow>
                    Inr [(''verdict'', JStr verdict),
                         (''hallucination_rate'', JNum rate),
                         (''unsupported'',
                            JNum (case re_search (match_count_at ''unsupported'') response of
                                    None \<Rightarrow> 0 | Some g \<Rightarrow> of_nat (int_of_digits g))),
                         (''total_claims'',
                            JNum (case re_search (match_count_at ''total_claims'') response of
                                    None \<Rightarrow> 0 | Some g \<Rightarrow> of_nat (int_of_digits g))),
                         (''unsupported_claims'', JArr []),
                         (''parse_note'', JStr ''Extracted from truncated JSON'')]))"

text \<open>The last resort: the first of the three words that occurs in the response.\<close>

definition keyword_scan :: "string \<Rightarrow> (string \<times> json) list option" where
  "keyword_scan response =
     (if contains response ''PASS'' then
        Some [(''verdict'', JStr ''PASS''), (''hallucination_rate'', JNum 0),
              (''unsupported_claims'', JArr []),
              (''parse_note'', JStr ''Fallback: found PASS in response text'')]
      else if contains response ''REVIEW'' then
        Some [(''verdict'', JStr ''REVIEW''), (''hallucination_rate'', JNum (15 / 100)),
              (''unsupported_claims'', JArr []),
              (''parse_note'', JStr ''Fallback: found REVIEW in response text'')]
      else if contains response ''FAIL'' then
        Some [(''verdict'', JStr ''FAIL''), (''hallucination_rate'', JNum (3 / 10)),
              (''unsupported_claims'', JArr []),
              (''parse_note'', JStr ''Fallback: found FAIL in response text'')]
      else None)"

definition parse_error :: "string \<Rightarrow> (string \<times> json) list" where
  "parse_error response =
     [(''verdict'', JStr ''ERROR''),
      (''error'', JStr ''Could not parse verification response''),
      (''raw_response'', JStr (take 500 response)),
      (''hallucination_rate'', JNum 1)]"

definition scan_or_error :: "string \<Rightarrow> (string \<times> json) list" where
  "scan_or_error response =
     (case keyword_scan response of Some d \<Rightarrow> d | None \<Rightarrow> parse_error response)"

text \<open>
  \<open>parse_verification(response)\<close>. \<open>json_loads\<close> stands for the library's \<open>json.loads\<close> on
  a text that starts and ends with a brace: the decoded object, or \<open>None\<close> for
  \<open>JSONDecodeError\<close>.
\<close>

definition parse_verification ::
  "(string \<Rightarrow> (string \<times> json) list option) \<Rightarrow> string \<Rightarrow> py_error + (string \<times> json) list" where
  "parse_verification json_loads response =
     (if startswith response ''ERROR:'' then
        Inr [(''verdict'', JStr ''ERROR''), (''error'', JStr response),
             (''hallucination_rate'', JNum 1)]
      else
        (case json_object_span response of
           None \<Rightarrow> Inr (scan_or_error response)
         | Some json_str \<Rightarrow>
             (case json_loads json_str of
                Some parsed \<Rightarrow> ensure_verdict parsed
              | None \<Rightarrow>
                  (case extract_fields response of
                     Some res \<Rightarrow> res
                   | None \<Rightarrow> Inr (scan_or_error response)))))"

subsection \<open>\<open>process_single_poi\<close>\<close>

text \<open>
  A fact sheet is a dictionary; \<open>None\<close> in a field is a missing key. The entries that
  only the prompt builders read are kept together in \<open>fs_evidence\<close>.
\<close>

record fact_sheet =
  fs_poi_id :: int
  fs_name :: "string option"
  fs_destination :: "string option"
  fs_destination_id :: "int option"
  fs_category :: "string option"
  fs_data_quality :: "string option"
  fs_google_placeid :: "string option"
  fs_evidence :: "(string \<times> json) list"

record request =
  rq_system :: string
  rq_user :: string
  rq_temperature :: rat
  rq_max_tokens :: nat
  rq_model :: string

text \<open>
  What the script takes from outside: the text service behind \<open>call_mistral\<close> (its answer
  after the HTTP retries of that function, a text that starts with \<open>ERROR:\<close> on failure;
  it may depend on the requests made before), the prompt builders of the prompt
  module, and \<open>json.loads\<close>.
\<close>

record env =
  e_service :: "request list \<Rightarrow> request \<Rightarrow> string"
  e_build_generation_prompt :: "fact_sheet \<Rightarrow> string \<times> string"
  e_build_verification_prompt :: "fact_sheet \<Rightarrow> string \<Rightarrow> string \<times> string"
  e_json_loads :: "string \<Rightarrow> (string \<times> json) list option"

text \<open>A call of the service: the answer, and the log of requests with this one added.\<close>

definition call_mistral :: "env \<Rightarrow> request list \<Rightarrow> request \<Rightarrow> string \<times> request list" where
  "call_mistral ev reqs rq = (e_service ev reqs rq, reqs @ [rq])"

datatype recommendation = USE_NEW | MANUAL_REVIEW

text \<open>
  The result dictionary; \<open>None\<close> in a field is a key the path taken did not set. The
  \<open>rationale\<close> text and the time stamp \<open>generated_at\<close> are messages that no function of
  the pipeline reads; they are left out, but an exception raised while formatting the
  rationale is kept.
\<close>

record poi_result =
  r_poi_id :: int
  r_poi_name :: string
  r_destination :: string
  r_destination_id :: int
  r_category :: string
  r_data_quality :: string
  r_google_placeid :: string
  r_old_content :: string
  r_new_content :: string
  r_error :: "string option"
  r_verdict :: json
  r_status :: status
  r_recommendation :: recommendation
  r_word_count :: "nat option"
  r_word_count_ok :: "bool option"
  r_word_retries :: "nat option"
  r_verification :: "(string \<times> json) list option"
  r_hallucination_rate :: "json option"
  r_llm_context :: "(string \<times> json) list option"

definition or_default :: "'a option \<Rightarrow> 'a \<Rightarrow> 'a" where
  "or_default v d = (case v of None \<Rightarrow> d | Some x \<Rightarrow> x)"

text \<open>\<open>STATUS_MAP.get(verdict, STATUS_MAP['ERROR'])\<close>\<close>

definition status_for_verdict :: "json \<Rightarrow> py_error + status" where
  "status_for_verdict verdict =
     (if \<not> hashable verdict then Inl TypeError
      else (case verdict of
              JStr v \<Rightarrow> (case STATUS_MAP v of Some st \<Rightarrow> Inr st | None \<Rightarrow> Inr ReviewRequired)
            | _ \<Rightarrow> Inr ReviewRequired))"

text \<open>The result when the first generation call fails.\<close>

definition generation_failed :: "fact_sheet \<Rightarrow> string \<Rightarrow> string \<Rightarrow> poi_result" where
  "generation_failed fs old_content generated_text =
     \<lparr>r_poi_id = fs_poi_id fs,
      r_poi_name = or_default (fs_name fs) ''Unknown'',
      r_destination = or_default (fs_destination fs) ''Unknown'',
      r_destination_id = or_default (fs_destination_id fs) 0,
      r_category = or_default (fs_category fs) [],
      r_data_quality = or_default (fs_data_quality fs) ''none'',
      r_google_placeid = or_default (fs_google_placeid fs) [],
      r_old_content = old_content,
      r_new_content = [],
      r_error = Some generated_text,
      r_verdict = JStr ''ERROR'',
      r_status = ReviewRequired,
      r_recommendation = MANUAL_REVIEW,
      r_word_count = None,
      r_word_count_ok = None,
      r_word_retries = None,
      r_verification = None,
      r_hallucination_rate = None,
      r_llm_context = None\<rparr>"

definition out_of_range :: "word_target \<Rightarrow> nat \<Rightarrow> bool" where
  "out_of_range targets word_count = (word_count < wt_min targets \<or> word_count > wt_max targets)"

text \<open>
  The retry loop on the word count. The state is the text, its word count, the number
  of retries and the request log.
\<close>

function retry_generation ::
  "env \<Rightarrow> string \<Rightarrow> string \<Rightarrow> word_target \<Rightarrow> string \<Rightarrow> nat \<Rightarrow> nat \<Rightarrow> request list
     \<Rightarrow> string \<times> nat \<times> nat \<times> request list" where
  "retry_generation ev system_prompt user_prompt targets generated_text word_count retry_count reqs =
     (if out_of_range targets word_count \<and> retry_count < WORD_COUNT_RETRIES then
        (let rc = retry_count + 1;
             res = call_mistral ev reqs
                 \<lparr>rq_system = system_prompt, rq_user = user_prompt,
                  rq_temperature = 3 / 10 + of_nat rc * (1 / 10),
                  rq_max_tokens = 400, rq_model = MISTRAL_MODEL_GENERATE\<rparr>
         in if startswith (fst res) ''ERROR:'' then (fst res, word_count, rc, snd res)
            else retry_generation ev system_prompt user_prompt targets
                   (fst res) (count_words (fst res)) rc (snd res))
      else (generated_text, word_count, retry_count, reqs))"
  by pat_completeness auto
termination
  by (relation "measure (\<lambda>(ev, sp, up, t, g, w, rc, l). WORD_COUNT_RETRIES - rc)") auto

declare retry_generation.simps [simp del]

text \<open>Formatting a value with \<open>:.0%\<close>: a number formats, a string or another value raises.\<close>

fun percent_format_error :: "json \<Rightarrow> py_error option" where
  "percent_format_error (JNum r) = None"
| "percent_format_error (JBool b) = None"
| "percent_format_error (JStr s) = Some ValueError"
| "percent_format_error _ = Some TypeError"

fun is_dict :: "json \<Rightarrow> bool" where
  "is_dict (JObj d) = True"
| "is_dict _ = False"

text \<open>
  \<open>[c for c in unsupported_claims if c.get('severity') == 'HIGH']\<close> in the branch of a
  FAIL verdict: here an element that is not a dictionary has no \<open>get\<close>.
\<close>

definition high_severity_of :: "json \<Rightarrow> py_error + json list" where
  "high_severity_of unsupported_claims =
     (case iterate unsupported_claims of
        None \<Rightarrow> Inl TypeError
      | Some cs \<Rightarrow> (if list_all is_dict cs then Inr (filter is_high cs) else Inl AttributeError))"

text \<open>The recommendation, or the exception raised on the way to it.\<close>

definition recommend :: "json \<Rightarrow> (string \<times> json) list \<Rightarrow> json \<Rightarrow> py_error + recommendation" where
  "recommend verdict verification hallucination_rate =
     (if verdict = JStr ''PASS'' then Inr USE_NEW
      else if verdict = JStr ''REVIEW'' then
        (case percent_format_error hallucination_rate of
           Some e \<Rightarrow> Inl e
         | None \<Rightarrow> Inr USE_NEW)
      else if verdict = JStr ''FAIL'' then
        (case high_severity_of (dict_get verification ''unsupported_claims'' (JArr [])) of
           Inl e \<Rightarrow> Inl e
         | Inr high_severity \<Rightarrow> Inr (if high_severity \<noteq> [] then MANUAL_REVIEW else USE_NEW))
      else Inr MANUAL_REVIEW)"

text \<open>\<open>v[:5]\<close>: a list or a string has a slice, nothing else has.\<close>

fun slice5 :: "json \<Rightarrow> json option" where
  "slice5 (JArr xs) = Some (JArr (take 5 xs))"
| "slice5 (JStr s) = Some (JStr (take 5 s))"
| "slice5 _ = None"

definition build_llm_context ::
  "string \<Rightarrow> nat \<Rightarrow> word_target \<Rightarrow> json \<Rightarrow> json \<Rightarrow> (string \<times> json) list \<Rightarrow> json
     \<Rightarrow> (string \<times> json) list" where
  "build_llm_context quality word_count targets verdict hallucination_rate verification claims5 =
     [(''data_quality'', JStr quality),
      (''word_count'', JNum (of_nat word_count)),
      (''word_target'', JObj [(''min'', JNum (of_nat (wt_min targets))),
                              (''max'', JNum (of_nat (wt_max targets)))]),
      (''verification_verdict'', verdict),
      (''hallucination_rate'', hallucination_rate),
      (''unsupported_count'', dict_get verification ''unsupported'' (JNum 0)),
      (''total_claims'', dict_get verification ''total_claims'' (JNum 0)),
      (''unsupported_claims'', claims5),
      (''content_source'', JStr ''fase_r4_regeneration''),
      (''model_generate'', JStr MISTRAL_MODEL_GENERATE),
      (''model_verify'', JStr MISTRAL_MODEL_VERIFY),
      (''r3_prompt_version'', JStr ''v3_final'')]"

text \<open>Step 2 of \<open>process_single_poi\<close>, from the parsed verification on.\<close>

definition verified_result ::
  "fact_sheet \<Rightarrow> string \<Rightarrow> string \<Rightarrow> nat \<Rightarrow> nat \<Rightarrow> (string \<times> json) list
     \<Rightarrow> py_error + poi_result" where
  "verified_result fs old_content generated_text word_count retry_count verification =
     (let quality = or_default (fs_data_quality fs) ''none'';
          targets = targets_for (JStr quality);
          verdict = dict_get verification ''verdict'' (JStr ''ERROR'');
          hallucination_rate = dict_get verification ''hallucination_rate'' (JNum (- 1))
      in case status_for_verdict verdict of
           Inl e \<Rightarrow> Inl e
         | Inr st \<Rightarrow>
             (case recommend verdict verification hallucination_rate of
                Inl e \<Rightarrow> Inl e
              | Inr rec \<Rightarrow>
                  (case slice5 (dict_get verification ''unsupported_claims'' (JArr [])) of
                     None \<Rightarrow> Inl TypeError
                   | Some claims5 \<Rightarrow>
                       Inr \<lparr>r_poi_id = fs_poi_id fs,
                            r_poi_name = or_default (fs_name fs) ''Unknown'',
                            r_destination = or_default (fs_destination fs) ''Unknown'',
                            r_destination_id = or_default (fs_destination_id fs) 0,
                            r_category = or_default (fs_category fs) [],
                            r_data_quality = quality,
                            r_google_placeid = or_default (fs_google_placeid fs) [],
                            r_old_content = old_content,
                            r_new_content = generated_text,
                            r_error = None,
                            r_verdict = verdict,
                            r_status = st,
                            r_recommendation = rec,
                            r_word_count = Some word_count,
                            r_word_count_ok = Some (\<not> out_of_range targets word_count),
                            r_word_retries = Some retry_count,
                            r_verification = Some verification,
                            r_hallucination_rate = Some hallucination_rate,
                            r_llm_context = Some (build_llm_context quality word_count targets
                                                    verdict hallucination_rate verification
                                                    claims5)\<rparr>)))"

text \<open>The first generation call of \<open>process_single_poi\<close>.\<close>

definition first_generation :: "env \<Rightarrow> request list \<Rightarrow> fact_sheet \<Rightarrow> string \<times> request list" where
  "first_generation ev reqs fs =
     call_mistral ev reqs
       \<lparr>rq_system = fst (e_build_generation_prompt ev fs),
        rq_user = snd (e_build_generation_prompt ev fs),
        rq_temperature = 4 / 10, rq_max_tokens = 400, rq_model = MISTRAL_MODEL_GENERATE\<rparr>"

text \<open>Step 1 after a first text that is no error: the retries on the word count.\<close>

definition generate_with_retries ::
  "env \<Rightarrow> request list \<Rightarrow> fact_sheet \<Rightarrow> string \<Rightarrow> string \<times> nat \<times> nat \<times> request list" where
  "generate_with_retries ev reqs1 fs first_text =
     retry_generation ev (fst (e_build_generation_prompt ev fs))
       (snd (e_build_generation_prompt ev fs))
       (targets_for (JStr (or_default (fs_data_quality fs) ''none'')))
       first_text (count_words first_text) 0 reqs1"

text \<open>The verification call of step 2.\<close>

definition verification_call ::
  "env \<Rightarrow> request list \<Rightarrow> fact_sheet \<Rightarrow> string \<Rightarrow> string \<times> request list" where
  "verification_call ev reqs2 fs generated_text =
     call_mistral ev reqs2
       \<lparr>rq_system = fst (e_build_verification_prompt ev fs generated_text),
        rq_user = snd (e_build_verification_prompt ev fs generated_text),
        rq_temperature = 1 / 10, rq_max_tokens = 1500, rq_model = MISTRAL_MODEL_VERIFY\<rparr>"

text \<open>
  \<open>process_single_poi(fact_sheet, old_content)\<close>: the result or the exception, and the
  request log after it.
\<close>

definition process_single_poi ::
  "env \<Rightarrow> request list \<Rightarrow> fact_sheet \<Rightarrow> string \<Rightarrow> (py_error + poi_result) \<times> request list" where
  "process_single_poi ev reqs fs old_content =
     (let gen1 = first_generation ev reqs fs
      in if startswith (fst gen1) ''ERROR:''
         then (Inr (generation_failed fs old_content (fst gen1)), snd gen1)
         else
           (let gen = generate_with_retries ev (snd gen1) fs (fst gen1);
                generated_text = fst gen;
                word_count = fst (snd gen);
                retry_count = fst (snd (snd gen));
                ver = verification_call ev (snd (snd (snd gen))) fs generated_text
            in case parse_verification (e_json_loads ev) (fst ver) of
                 Inl e \<Rightarrow> (Inl e, snd ver)
               | Inr verification \<Rightarrow>
                   (verified_result fs old_content generated_text word_count retry_count
                      verification, snd ver)))"

subsection \<open>Checkpoints and the batch runner\<close>

text \<open>
  \<open>compute_stats\<close> summarises the results for the reports. The counters that need no
  grouping are kept; the empty dictionary of the source, for no results, is \<open>None\<close>.
\<close>

record stats =
  st_total :: nat
  st_word_count_ok :: nat
  st_word_count_retried :: nat
  st_errors :: nat

definition compute_stats :: "poi_result list \<Rightarrow> stats option" where
  "compute_stats results =
     (if results = [] then None
      else Some \<lparr>st_total = length results,
                 st_word_count_ok = length (filter (\<lambda>r. r_word_count_ok r = Some True) results),
                 st_word_count_retried =
                   length (filter (\<lambda>r. or_default (r_word_retries r) 0 > 0) results),
                 st_errors = length (filter (\<lambda>r. or_default (r_error r) [] \<noteq> []) results)\<rparr>)"

text \<open>
  The checkpoint dictionary. The runner reads the keys \<open>completed_ids\<close> and \<open>results\<close>;
  \<open>ck_results = None\<close> is a dictionary without the key \<open>results\<close>. The list of completed
  ids is written from a set and read back into a set, so it is kept as a set.
\<close>

record checkpoint =
  ck_completed_ids :: "int set"
  ck_phase :: string
  ck_stats :: "stats option"
  ck_results :: "poi_result list option"

text \<open>
  What outlives a run: the checkpoint file, the results file, and the rows sent to the
  staging table (one \<open>INSERT ... ON DUPLICATE KEY UPDATE\<close> per entry, in order).
\<close>

record staged_entry =
  se_poi_id :: int
  se_destination_id :: int
  se_poi_name :: string
  se_google_placeid :: string
  se_detail_description_en :: string
  se_content_source :: string
  se_content_priority :: nat
  se_old_content_snapshot :: string
  se_llm_context_json :: "(string \<times> json) list"
  se_status :: status
  se_comparison_recommendation :: recommendation

record store =
  checkpoint_file :: "checkpoint option"
  results_file :: "poi_result list option"
  staging_writes :: "staged_entry list"

definition staged_entry_of :: "poi_result \<Rightarrow> staged_entry" where
  "staged_entry_of entry =
     \<lparr>se_poi_id = r_poi_id entry,
      se_destination_id = r_destination_id entry,
      se_poi_name = r_poi_name entry,
      se_google_placeid = r_google_placeid entry,
      se_detail_description_en = r_new_content entry,
      se_content_source = ''fase_r4_regeneration'',
      se_content_priority = 1,
      se_old_content_snapshot = r_old_content entry,
      se_llm_context_json = or_default (r_llm_context entry) [],
      se_status = r_status entry,
      se_comparison_recommendation = r_recommendation entry\<rparr>"

definition write_to_staging :: "poi_result list \<Rightarrow> store \<Rightarrow> store" where
  "write_to_staging entries s = s\<lparr>staging_writes := staging_writes s @ map staged_entry_of entries\<rparr>"

definition load_checkpoint :: "store \<Rightarrow> checkpoint" where
  "load_checkpoint s =
     (case checkpoint_file s of
        Some ck \<Rightarrow> ck
      | None \<Rightarrow> \<lparr>ck_completed_ids = {}, ck_phase = ''generation'', ck_stats = None,
                 ck_results = None\<rparr>)"

definition save_checkpoint :: "checkpoint \<Rightarrow> store \<Rightarrow> store" where
  "save_checkpoint state s = s\<lparr>checkpoint_file := Some state\<rparr>"

text \<open>The variables of the loop of \<open>run_generation_and_verification\<close>, and what outlives it.\<close>

record run_state =
  rs_results :: "poi_result list"
  rs_completed_ids :: "int set"
  rs_batch_for_staging :: "poi_result list"
  rs_store :: store
  rs_requests :: "request list"

text \<open>After an item is processed: its result is recorded, and every \<open>BATCH_SIZE\<close> items the
  batch is written to staging and the checkpoint is saved.\<close>

definition record_result :: "poi_result \<Rightarrow> int \<Rightarrow> request list \<Rightarrow> run_state \<Rightarrow> run_state" where
  "record_result result poi_id reqs st =
     (let results = rs_results st @ [result];
          completed_ids = insert poi_id (rs_completed_ids st);
          batch_for_staging = rs_batch_for_staging st @ [result]
      in if length batch_for_staging \<ge> BATCH_SIZE
         then \<lparr>rs_results = results,
               rs_completed_ids = completed_ids,
               rs_batch_for_staging = [],
               rs_store = save_checkpoint
                   \<lparr>ck_completed_ids = completed_ids, ck_phase = ''generation'',
                    ck_stats = compute_stats results, ck_results = None\<rparr>
                   (write_to_staging batch_for_staging (rs_store st)),
               rs_requests = reqs\<rparr>
         else \<lparr>rs_results = results,
               rs_completed_ids = completed_ids,
               rs_batch_for_staging = batch_for_staging,
               rs_store = rs_store st,
               rs_requests = reqs\<rparr>)"

text \<open>
  The loop over the remaining fact sheets. An exception of \<open>process_single_poi\<close> is not
  caught: it ends the run at that item, with the store as the last checkpoint left it.
\<close>

fun run_loop ::
  "env \<Rightarrow> (int \<Rightarrow> string option) \<Rightarrow> fact_sheet list \<Rightarrow> run_state \<Rightarrow> py_error option \<times> run_state" where
  "run_loop ev old_content_map [] st = (None, st)"
| "run_loop ev old_content_map (fs # rest) st =
     (case process_single_poi ev (rs_requests st) fs
             (or_default (old_content_map (fs_poi_id fs)) []) of
        (Inl e, reqs) \<Rightarrow> (Some e, st\<lparr>rs_requests := reqs\<rparr>)
      | (Inr result, reqs) \<Rightarrow>
          run_loop ev old_content_map rest (record_result result (fs_poi_id fs) reqs st))"

text \<open>The fact sheets a run works on: not completed, after the offset, within the limit.\<close>

definition remaining_items ::
  "fact_sheet list \<Rightarrow> checkpoint \<Rightarrow> nat option \<Rightarrow> nat \<Rightarrow> fact_sheet list" where
  "remaining_items fact_sheets ck limit offset =
     (let remaining = filter (\<lambda>fs. fs_poi_id fs \<notin> ck_completed_ids ck) fact_sheets;
          remaining1 = (if offset > 0 then drop offset remaining else remaining)
      in case limit of
           None \<Rightarrow> remaining1
         | Some l \<Rightarrow> (if l \<noteq> 0 then take l remaining1 else remaining1))"

definition initial_run_state :: "checkpoint \<Rightarrow> store \<Rightarrow> request list \<Rightarrow> run_state" where
  "initial_run_state ck s reqs =
     \<lparr>rs_results = or_default (ck_results ck) [],
      rs_completed_ids = ck_completed_ids ck,
      rs_batch_for_staging = [],
      rs_store = s,
      rs_requests = reqs\<rparr>"

text \<open>What follows the loop: the last staging write, the final checkpoint, the results file.\<close>

definition finish_run :: "run_state \<Rightarrow> store" where
  "finish_run st =
     (let s1 = (if rs_batch_for_staging st \<noteq> []
                then write_to_staging (rs_batch_for_staging st) (rs_store st)
                else rs_store st);
          s2 = save_checkpoint
                 \<lparr>ck_completed_ids = rs_completed_ids st, ck_phase = ''complete'',
                  ck_stats = compute_stats (rs_results st), ck_results = None\<rparr> s1
      in s2\<lparr>results_file := Some (rs_results st)\<rparr>)"

text \<open>
  \<open>run_generation_and_verification(fact_sheets, old_content_map, checkpoint, limit,
  offset)\<close>: the results returned (or the exception), the store and the request log.
\<close>

definition run_generation_and_verification ::
  "env \<Rightarrow> fact_sheet list \<Rightarrow> (int \<Rightarrow> string option) \<Rightarrow> checkpoint \<Rightarrow> nat option \<Rightarrow> nat
     \<Rightarrow> store \<Rightarrow> request list \<Rightarrow> (py_error + poi_result list) \<times> store \<times> request list" where
  "run_generation_and_verification ev fact_sheets old_content_map ck limit offset s reqs =
     (case run_loop ev old_content_map (remaining_items fact_sheets ck limit offset)
             (initial_run_state ck s reqs) of
        (Some e, st) \<Rightarrow> (Inl e, rs_store st, rs_requests st)
      | (None, st) \<Rightarrow> (Inr (rs_results st), finish_run st, rs_requests st))"

text \<open>
  \<open>main\<close>, without the report and the clearing of the staging table: with \<open>--resume\<close> the
  checkpoint file is loaded, without it the run starts from a fresh checkpoint.
\<close>

definition main_run ::
  "env \<Rightarrow> fact_sheet list \<Rightarrow> (int \<Rightarrow> string option) \<Rightarrow> bool \<Rightarrow> nat option \<Rightarrow> nat
     \<Rightarrow> store \<Rightarrow> request list \<Rightarrow> (py_error + poi_result list) \<times> store \<times> request list" where
  "main_run ev fact_sheets old_content_map resume limit offset s reqs =
     run_generation_and_verification ev fact_sheets old_content_map
       (if resume then load_checkpoint s
        else \<lparr>ck_completed_ids = {}, ck_phase = ''generation'', ck_stats = None,
              ck_results = None\<rparr>)
       limit offset s reqs"

text \<open>
  A run that is killed right after the item at position \<open>n\<close> of its work list leaves the
  store that the loop has written up to there.
\<close>

definition store_after_items ::
  "env \<Rightarrow> fact_sheet list \<Rightarrow> (int \<Rightarrow> string option) \<Rightarrow> nat \<Rightarrow> store \<Rightarrow> request list \<Rightarrow> store" where
  "store_after_items ev fact_sheets old_content_map n s reqs =
     rs_store (snd (run_loop ev old_content_map
        (take n (remaining_items fact_sheets
                   \<lparr>ck_completed_ids = {}, ck_phase = ''generation'', ck_stats = None,
                    ck_results = None\<rparr> None 0))
        (initial_run_state
           \<lparr>ck_completed_ids = {}, ck_phase = ''generation'', ck_stats = None,
            ck_results = None\<rparr> s reqs)))"

section \<open>Promotion and rollback (fase\_r5\_promote\_staging.py)\<close>

text \<open>
  The three tables the script reads and writes. A text column may be \<open>NULL\<close> (\<open>None\<close>).
  The JSON column of a staging row is the value its text decodes to; \<open>None\<close> is \<open>NULL\<close>
  or a text that does not decode. \<open>s_created_date\<close> is \<open>DATE(created_at)\<close>. The tables
  are lists in the order of insertion, which stands for the order of \<open>created_at\<close>.
  The time stamps the script writes with \<open>NOW()\<close> are left out.
\<close>

record staging_row =
  s_id :: int
  s_poi_id :: int
  s_poi_name :: "string option"
  s_detail_description_en :: "string option"
  s_llm_context_json :: "json option"
  s_destination_id :: "int option"
  s_old_content_snapshot :: "string option"
  s_comparison_recommendation :: "string option"
  s_comparison_rationale :: "string option"
  s_status :: status
  s_created_date :: string
  s_review_notes :: "string option"

record history_entry =
  h_poi_id :: int
  h_field_name :: string
  h_old_value :: "string option"
  h_new_value :: "string option"
  h_change_source :: string
  h_change_reason :: string
  h_verification_result :: "json option"
  h_changed_by :: string

text \<open>
  \<open>poi\<close> is the production table: the id of a POI to its
  \<open>enriched_detail_description\<close>. \<open>production_writes\<close> lists the \<open>UPDATE POI\<close> statements
  that were executed, each with the id and the text it wrote.
\<close>

record db =
  poi :: "int \<Rightarrow> string option option"
  staging :: "staging_row list"
  history :: "history_entry list"
  production_writes :: "(int \<times> string option) list"

definition R4_BATCH_DATE :: string where
  "R4_BATCH_DATE = ''2026-02-13''"

text \<open>Python's truth value of a text column (\<open>if not old_content\<close>, \<open>x or default\<close>).\<close>

definition text_truthy :: "string option \<Rightarrow> bool" where
  "text_truthy v = (case v of None \<Rightarrow> False | Some s \<Rightarrow> s \<noteq> [])"

text \<open>\<open>WHERE DATE(s.created_at) = %s AND s.status = 'approved'\<close>\<close>

definition selected_for_promotion :: "staging_row \<Rightarrow> bool" where
  "selected_for_promotion s = (s_created_date s = R4_BATCH_DATE \<and> s_status s = Approved)"

text \<open>\<open>UPDATE poi_content_staging SET status = 'applied' WHERE id = %s\<close>\<close>

definition mark_applied :: "int \<Rightarrow> staging_row list \<Rightarrow> staging_row list" where
  "mark_applied i rows = map (\<lambda>s. if s_id s = i then s\<lparr>s_status := Applied\<rparr> else s) rows"

definition promotion_entry :: "staging_row \<Rightarrow> string option \<Rightarrow> history_entry" where
  "promotion_entry row old_content =
     \<lparr>h_poi_id = s_poi_id row,
      h_field_name = ''enriched_detail_description'',
      h_old_value = old_content,
      h_new_value = s_detail_description_en row,
      h_change_source = ''fase_r4_staging'',
      h_change_reason = (if text_truthy (s_comparison_rationale row)
                         then or_default (s_comparison_rationale row) []
                         else ''R4 regeneration approved''),
      h_verification_result = (case s_llm_context_json row of
                                 None \<Rightarrow> None
                               | Some v \<Rightarrow> (if truthy v then Some v else None)),
      h_changed_by = ''system_r5''\<rparr>"

text \<open>
  The body of the loop of \<open>promote_to_production\<close> for one fetched row: the database
  after it, and whether the row counts as promoted.
\<close>

definition promote_row :: "db \<Rightarrow> staging_row \<Rightarrow> db \<times> bool" where
  "promote_row d row =
     (case poi d (s_poi_id row) of
        None \<Rightarrow> (d, False)
      | Some old_content \<Rightarrow>
          (if old_content = s_detail_description_en row
           then (d\<lparr>staging := mark_applied (s_id row) (staging d)\<rparr>, True)
           else (d\<lparr>poi := (poi d)(s_poi_id row \<mapsto> s_detail_description_en row),
                   production_writes := production_writes d
                       @ [(s_poi_id row, s_detail_description_en row)],
                   history := history d @ [promotion_entry row old_content],
                   staging := mark_applied (s_id row) (staging d)\<rparr>, True)))"

fun promote_rows :: "staging_row list \<Rightarrow> db \<Rightarrow> nat \<Rightarrow> nat \<times> db" where
  "promote_rows [] d promoted = (promoted, d)"
| "promote_rows (row # rest) d promoted =
     (case promote_row d row of
        (d', ok) \<Rightarrow> promote_rows rest d' (if ok then promoted + 1 else promoted))"

text \<open>\<open>promote_to_production(conn, dry_run)\<close>: the number it returns and the database.\<close>

definition promote_to_production :: "db \<Rightarrow> bool \<Rightarrow> nat \<times> db" where
  "promote_to_production d dry_run =
     (let rows = filter selected_for_promotion (staging d)
      in if rows = [] then (0, d)
         else if dry_run then (length rows, d)
         else promote_rows rows d 0)"

text \<open>\<open>... WHERE poi_id = %s AND field_name = ... ORDER BY created_at DESC LIMIT 1\<close>\<close>

definition latest_history :: "db \<Rightarrow> int \<Rightarrow> history_entry option" where
  "latest_history d poi_id =
     find (\<lambda>h. h_poi_id h = poi_id \<and> h_field_name h = ''enriched_detail_description'')
          (rev (history d))"

definition latest_staging :: "db \<Rightarrow> int \<Rightarrow> staging_row option" where
  "latest_staging d poi_id =
     find (\<lambda>s. s_poi_id s = poi_id \<and> s_created_date s = R4_BATCH_DATE) (rev (staging d))"

text \<open>The content to restore: from the audit trail, else from the staging snapshot.\<close>

definition rollback_source :: "db \<Rightarrow> int \<Rightarrow> string option option" where
  "rollback_source d poi_id =
     (case latest_history d poi_id of
        Some h \<Rightarrow> Some (h_old_value h)
      | None \<Rightarrow>
          (case latest_staging d poi_id of
             None \<Rightarrow> None
           | Some s \<Rightarrow> (if text_truthy (s_old_content_snapshot s)
                        then Some (s_old_content_snapshot s) else None)))"

definition rollback_entry :: "int \<Rightarrow> string option option \<Rightarrow> string option \<Rightarrow> history_entry" where
  "rollback_entry poi_id current old_content =
     \<lparr>h_poi_id = poi_id,
      h_field_name = ''enriched_detail_description'',
      h_old_value = (case current of None \<Rightarrow> Some [] | Some v \<Rightarrow> v),
      h_new_value = old_content,
      h_change_source = ''rollback'',
      h_change_reason = ''Manual rollback via fase_r5_promote_staging.py'',
      h_verification_result = None,
      h_changed_by = ''system_r5''\<rparr>"

text \<open>\<open>UPDATE ... SET status = 'rejected', review_notes = ... WHERE poi_id = %s AND
  DATE(created_at) = %s AND status = 'applied'\<close>\<close>

definition reject_applied :: "int \<Rightarrow> staging_row list \<Rightarrow> staging_row list" where
  "reject_applied poi_id rows =
     map (\<lambda>s. if s_poi_id s = poi_id \<and> s_created_date s = R4_BATCH_DATE \<and> s_status s = Applied
              then s\<lparr>s_status := Rejected, s_review_notes := Some ''Rolled back via R5''\<rparr>
              else s) rows"

text \<open>\<open>rollback_poi(conn, poi_id, dry_run)\<close>: the value it returns and the database.\<close>

definition rollback_poi :: "db \<Rightarrow> int \<Rightarrow> bool \<Rightarrow> bool \<times> db" where
  "rollback_poi d poi_id dry_run =
     (case rollback_source d poi_id of
        None \<Rightarrow> (False, d)
      | Some old_content \<Rightarrow>
          (if \<not> text_truthy old_content then (False, d)
           else if dry_run then (True, d)
           else (True,
                 d\<lparr>poi := (if poi d poi_id = None then poi d
                            else (poi d)(poi_id \<mapsto> old_content)),
                   production_writes := production_writes d @ [(poi_id, old_content)],
                   history := history d @ [rollback_entry poi_id (poi d poi_id) old_content],
                   staging := reject_applied poi_id (staging d)\<rparr>)))"

section \<open>Observations on the database\<close>

text \<open>
  What the properties of promotion and rollback speak about: the audit entries of one
  POI, the production writes to one POI, and the situation that a staging row is the
  only approved row of the batch for its POI.
\<close>

definition history_for :: "db \<Rightarrow> int \<Rightarrow> history_entry list" where
  "history_for d p = filter (\<lambda>h. h_poi_id h = p) (history d)"

definition writes_for :: "db \<Rightarrow> int \<Rightarrow> (int \<times> string option) list" where
  "writes_for d p = filter (\<lambda>w. fst w = p) (production_writes d)"

definition sole_approved_row :: "db \<Rightarrow> staging_row \<Rightarrow> bool" where
  "sole_approved_row d x =
     (filter (\<lambda>s. s_poi_id s = s_poi_id x) (filter selected_for_promotion (staging d)) = [x])"

text \<open>An environment in which no item makes \<open>process_single_poi\<close> raise an exception.\<close>

definition never_raises :: "env \<Rightarrow> bool" where
  "never_raises ev =
     (\<forall>reqs fs old_content. \<exists>r. fst (process_single_poi ev reqs fs old_content) = Inr r)"

section \<open>Example inputs\<close>

text \<open>The contexts of the self-test of the safeguards module (tests 2 and 3).\<close>

definition selftest_2_context :: "(string \<times> json) list" where
  "selftest_2_context =
     [(''data_quality'', JStr ''minimal''),
      (''hallucination_rate'', JNum (40 / 100)),
      (''verification_verdict'', JStr ''FAIL''),
      (''unsupported_claims'',
         JArr [JObj [(''claim'', JStr ''Michelin stars''), (''severity'', JStr ''HIGH''),
                     (''reason'', JStr ''No source'')]]),
      (''word_count'', JNum 7)]"

definition selftest_3_context :: "(string \<times> json) list" where
  "selftest_3_context =
     [(''data_quality'', JStr ''rich''),
      (''hallucination_rate'', JNum (5 / 100)),
      (''verification_verdict'', JStr ''PASS''),
      (''unsupported_claims'', JArr []),
      (''word_count'', JNum 6)]"

text \<open>A row of tier \<open>none\<close> with a hallucination rate of 25% and no unsupported claim listed.\<close>

definition none_tier_context :: "(string \<times> json) list" where
  "none_tier_context =
     [(''data_quality'', JStr ''none''),
      (''hallucination_rate'', JNum (25 / 100)),
      (''verification_verdict'', JStr ''FAIL''),
      (''unsupported_claims'', JArr []),
      (''word_count'', JNum 2)]"

text \<open>
  A service that answers every generation request with \<open>gen\<close> and every verification
  request with \<open>ver\<close>, and a decoder that answers \<open>decoded\<close>; a fact sheet of tier \<open>rich\<close>.
\<close>

definition demo_env :: "string \<Rightarrow> string \<Rightarrow> (string \<times> json) list option \<Rightarrow> env" where
  "demo_env gen ver decoded =
     \<lparr>e_service = (\<lambda>reqs rq. if rq_max_tokens rq = 1500 then ver else gen),
      e_build_generation_prompt = (\<lambda>fs. (''write'', or_default (fs_name fs) [])),
      e_build_verification_prompt = (\<lambda>fs t. (''check'', t)),
      e_json_loads = (\<lambda>s. decoded)\<rparr>"

definition demo_sheet :: fact_sheet where
  "demo_sheet =
     \<lparr>fs_poi_id = 1, fs_name = Some ''Cafe'', fs_destination = Some ''Texel'',
      fs_destination_id = Some 2, fs_category = Some ''Food'', fs_data_quality = Some ''rich'',
      fs_google_placeid = None, fs_evidence = []\<rparr>"

text \<open>Judgements of the verification service, as texts and as \<open>json.loads\<close> decodes them.\<close>

definition pass_text :: string where
  \<open>pass_text = ''{"verdict": "PASS", "hallucination_rate": 0.0, "unsupported_claims": []}''\<close>

definition pass_judgement :: "(string \<times> json) list" where
  "pass_judgement =
     [(''verdict'', JStr ''PASS''), (''hallucination_rate'', JNum 0),
      (''unsupported_claims'', JArr [])]"

definition review_text :: string where
  \<open>review_text = ''{"verdict": "REVIEW", "hallucination_rate": 0.1, "unsupported_claims": []}''\<close>

definition review_judgement :: "(string \<times> json) list" where
  "review_judgement =
     [(''verdict'', JStr ''REVIEW''), (''hallucination_rate'', JNum (1 / 10)),
      (''unsupported_claims'', JArr [])]"









text \<open>
  A database with one POI, number 7, whose production text is \<open>production\<close>, one approved
  staging row of the batch for it with the candidate text \<open>candidate\<close>, and the audit
  trail \<open>trail\<close>.
\<close>

definition demo_row :: "string \<Rightarrow> string \<Rightarrow> staging_row" where
  "demo_row production candidate =
     \<lparr>s_id = 1, s_poi_id = 7, s_poi_name = Some ''Cafe'',
      s_detail_description_en = Some candidate, s_llm_context_json = None,
      s_destination_id = Some 2, s_old_content_snapshot = Some production,
      s_comparison_recommendation = Some ''USE_NEW'', s_comparison_rationale = None,
      s_status = Approved, s_created_date = ''2026-02-13'', s_review_notes = None\<rparr>"

definition demo_db :: "string \<Rightarrow> string \<Rightarrow> history_entry list \<Rightarrow> db" where
  "demo_db production candidate trail =
     \<lparr>poi = [7 \<mapsto> Some production],
      staging = [demo_row production candidate],
      history = trail,
      production_writes = []\<rparr>"

text \<open>An audit entry of an earlier change of POI 7, from \<open>Older text\<close> to \<open>Same text\<close>.\<close>

definition earlier_entry :: history_entry where
  "earlier_entry =
     \<lparr>h_poi_id = 7, h_field_name = ''enriched_detail_description'',
      h_old_value = Some ''Older text'', h_new_value = Some ''Same text'',
      h_change_source = ''manual'', h_change_reason = ''edit'',
      h_verification_result = None, h_changed_by = ''editor''\<rparr>"

text \<open>
  Fifty-one fact sheets, numbered 1 to 51, one more than \<open>BATCH_SIZE\<close>; a store with no
  files; no old content.
\<close>

definition numbered_sheet :: "int \<Rightarrow> fact_sheet" where
  "numbered_sheet i = demo_sheet\<lparr>fs_poi_id := i\<rparr>"

definition demo_sheets :: "fact_sheet list" where
  "demo_sheets = map numbered_sheet [1..51]"

definition empty_store :: store where
  "empty_store = \<lparr>checkpoint_file = None, results_file = None, staging_writes = []\<rparr>"

definition passing_env :: env where
  "passing_env = demo_env ''A cafe by the harbour.'' pass_text (Some pass_judgement)"



text \<open>
  The database of \<open>demo_db\<close> without POI 7 in the production table, and a database with
  two approved rows of the batch for POI 7, inserted in this order.
\<close>

definition orphan_db :: db where
  "orphan_db = (demo_db ''Old text'' ''New text'' [])\<lparr>poi := Map.empty\<rparr>"

definition second_row :: "string \<Rightarrow> string \<Rightarrow> staging_row" where
  "second_row production candidate = (demo_row production candidate)\<lparr>s_id := 2\<rparr>"

definition two_row_db :: "string \<Rightarrow> string \<Rightarrow> string \<Rightarrow> db" where
  "two_row_db production candidate1 candidate2 =
     \<lparr>poi = [7 \<mapsto> Some production],
      staging = [demo_row production candidate1, second_row production candidate2],
      history = [],
      production_writes = []\<rparr>"

section \<open>Properties of the Safeguard Gate\<close>

lemmas text_eval = word_count_warnings_def targets_for_def WORD_TARGETS_def
  embellishment_warnings_def count_words_def is_space_def lower_def lower_char_def
  EMBELLISHMENT_BLOCKLIST_def startswith_def

lemma is_high_filter:
  "JObj c \<in> set cs \<Longrightarrow> map_of c ''severity'' = Some (JStr ''HIGH'') \<Longrightarrow> filter is_high cs \<noteq> []"
  by (auto simp: filter_empty_conv intro!: bexI[of _ "JObj c"])

text \<open>
  Claim C2. A row whose verification metadata lists an unsupported claim of severity
  HIGH is never approved: whenever \<open>validate_content\<close> returns, \<open>approved\<close> is false and the
  reasons hold the message of rule 1, whatever the content, the destination and the
  other entries of the metadata are. It does return when the hallucination rate is a
  number (or absent) and the quality tier is a string (or absent); otherwise the source
  raises an exception, which approves nothing either.
\<close>

theorem validate_content_high_severity_blocks:
  assumes "map_of ctx ''unsupported_claims'' = Some (JArr cs)"
    and "JObj c \<in> set cs"
    and "map_of c ''severity'' = Some (JStr ''HIGH'')"
  shows "(\<forall>r. validate_content poi_id new_content (Some (JObj ctx)) destination_id = Inr r
            \<longrightarrow> \<not> approved r
                \<and> HighSeverityClaims (length (filter is_high cs)) \<in> set (reasons r))
       \<and> (num_of (dict_get ctx ''hallucination_rate'' (JNum 1)) \<noteq> None
            \<and> hashable (dict_get ctx ''data_quality'' (JStr ''none''))
           \<longrightarrow> (\<exists>r. validate_content poi_id new_content (Some (JObj ctx)) destination_id
                      = Inr r))"
proof -
  have ne: "ctx \<noteq> []" using assms(1) by auto
  have hi: "filter is_high cs \<noteq> []" using is_high_filter[OF assms(2,3)] .
  show ?thesis
    using ne hi assms(1)
    by (auto simp: validate_content_def context_dict_def dict_get_def Let_def
             split: option.splits if_splits)
qed

theorem validate_content_high_severity_blocks_witness:
  "\<exists>r. validate_content 2 (Some ''Award-winning restaurant with Michelin stars.'')
          (Some (JObj selftest_2_context)) (Some 1) = Inr r
       \<and> \<not> approved r \<and> HighSeverityClaims 1 \<in> set (reasons r)"
proof -
  let ?c = "[(''claim'', JStr ''Michelin stars''), (''severity'', JStr ''HIGH''),
             (''reason'', JStr ''No source'')]"
  have h1: "map_of selftest_2_context ''unsupported_claims'' = Some (JArr [JObj ?c])"
    by (simp add: selftest_2_context_def)
  have h2: "JObj ?c \<in> set [JObj ?c]" by simp
  have h3: "map_of ?c ''severity'' = Some (JStr ''HIGH'')" by simp
  note T = validate_content_high_severity_blocks [OF h1 h2 h3,
      of 2 "Some ''Award-winning restaurant with Michelin stars.''" "Some 1"]
  have typed: "num_of (dict_get selftest_2_context ''hallucination_rate'' (JNum 1)) \<noteq> None
      \<and> hashable (dict_get selftest_2_context ''data_quality'' (JStr ''none''))"
    by (simp add: selftest_2_context_def dict_get_def)
  from T typed obtain r where
    r: "validate_content 2 (Some ''Award-winning restaurant with Michelin stars.'')
          (Some (JObj selftest_2_context)) (Some 1) = Inr r"
    by blast
  with T have "\<not> approved r
      \<and> HighSeverityClaims (length (filter is_high [JObj ?c])) \<in> set (reasons r)"
    by blast
  then have "\<not> approved r \<and> HighSeverityClaims 1 \<in> set (reasons r)" by simp
  with r show ?thesis by blast
qed

lemma validate_content_zero_destination:
  "validate_content poi_id new_content ctx (Some 0) = validate_content poi_id new_content ctx None"
  by (simp add: validate_content_def Let_def split: sum.splits option.splits)

lemma validate_content_no_destination_reason:
  "validate_content poi_id new_content ctx None = Inr r \<Longrightarrow> UnknownDestination d \<notin> set (reasons r)"
  by (auto simp: validate_content_def Let_def split: sum.splits option.splits if_splits)

text \<open>
  Claim C10. Rule 5 tests \<open>destination_id\<close> for truth before it looks the id up. For a
  destination id that is \<open>None\<close> or 0 the gate answers as it does for the known
  destination 1, and no reason of rule 5 is among the reasons, although 0 is no key of
  \<open>KNOWN_DESTINATIONS\<close>. Test 3 of the self-test, which is blocked for destination 99, is
  approved for destination 0.
\<close>

theorem validate_content_skips_missing_destination:
  "(destination_id = None \<or> destination_id = Some 0
      \<longrightarrow> validate_content poi_id new_content ctx destination_id
            = validate_content poi_id new_content ctx (Some 1)
          \<and> (\<forall>r d. validate_content poi_id new_content ctx destination_id = Inr r
                  \<longrightarrow> UnknownDestination d \<notin> set (reasons r)))
   \<and> KNOWN_DESTINATIONS 0 = None
   \<and> validate_content 3 (Some ''A nice place to visit.'') (Some (JObj selftest_3_context)) (Some 0)
       = Inr \<lparr>approved = True, reasons = [], warnings = [WordCountBelow 5 88]\<rparr>
   \<and> validate_content 3 (Some ''A nice place to visit.'') (Some (JObj selftest_3_context)) (Some 99)
       = Inr \<lparr>approved = False, reasons = [UnknownDestination 99],
              warnings = [WordCountBelow 5 88]\<rparr>"
proof -
  have a: "validate_content poi_id new_content ctx None
           = validate_content poi_id new_content ctx (Some 1)"
    by (simp add: validate_content_def KNOWN_DESTINATIONS_def Let_def
          split: sum.splits option.splits)
  have b: "KNOWN_DESTINATIONS 0 = None" by (simp add: KNOWN_DESTINATIONS_def)
  have c: "validate_content 3 (Some ''A nice place to visit.'') (Some (JObj selftest_3_context))
             (Some 0)
       = Inr \<lparr>approved = True, reasons = [], warnings = [WordCountBelow 5 88]\<rparr>"
    by (simp add: validate_content_def context_dict_def dict_get_def Let_def
          MAX_HALLUCINATION_RATE_def MAX_HALLUCINATION_RATE_NONE_def selftest_3_context_def
          text_eval)
  have d: "validate_content 3 (Some ''A nice place to visit.'') (Some (JObj selftest_3_context))
             (Some 99)
       = Inr \<lparr>approved = False, reasons = [UnknownDestination 99],
              warnings = [WordCountBelow 5 88]\<rparr>"
    by (simp add: validate_content_def context_dict_def dict_get_def Let_def
          KNOWN_DESTINATIONS_def MAX_HALLUCINATION_RATE_def MAX_HALLUCINATION_RATE_NONE_def
          selftest_3_context_def text_eval)
  show ?thesis
    using a b c d validate_content_zero_destination validate_content_no_destination_reason
    by auto
qed

theorem validate_content_skips_missing_destination_witness:
  "\<exists>r. validate_content 3 (Some ''A nice place to visit.'') (Some (JObj selftest_3_context)) (Some 0)
          = Inr r
       \<and> approved r \<and> UnknownDestination 0 \<notin> set (reasons r)
       \<and> validate_content 3 (Some ''A nice place to visit.'') (Some (JObj selftest_3_context)) (Some 1)
          = Inr r"
proof -
  note T = validate_content_skips_missing_destination
             [of "Some 0" 3 "Some ''A nice place to visit.''" "Some (JObj selftest_3_context)"]
  from T have same: "validate_content 3 (Some ''A nice place to visit.'')
        (Some (JObj selftest_3_context)) (Some 0)
      = validate_content 3 (Some ''A nice place to visit.'')
        (Some (JObj selftest_3_context)) (Some 1)"
    by blast
  from T have val: "validate_content 3 (Some ''A nice place to visit.'')
        (Some (JObj selftest_3_context)) (Some 0)
      = Inr \<lparr>approved = True, reasons = [], warnings = [WordCountBelow 5 88]\<rparr>"
    by blast
  have one: "validate_content 3 (Some ''A nice place to visit.'')
        (Some (JObj selftest_3_context)) (Some 1)
      = Inr \<lparr>approved = True, reasons = [], warnings = [WordCountBelow 5 88]\<rparr>"
    using same[symmetric] val by (rule trans)
  show ?thesis
    by (rule exI[of _ "\<lparr>approved = True, reasons = [], warnings = [WordCountBelow 5 88]\<rparr>"])
       (simp add: val one)
qed

text \<open>
  Claim C6. The constant \<open>MAX_HALLUCINATION_RATE_NONE\<close> gives rows of tier \<open>none\<close> an
  allowance of 30%, and rule 2 applies it. Rule 6 then blocks every row of tier \<open>none\<close>
  whose rate is above \<open>MAX_HALLUCINATION_RATE\<close> (20%) and that rule 2 let through. The
  row below has tier \<open>none\<close> and a rate of 25%, within the allowance of its tier: rule 2
  writes no reason, rule 6 blocks it.
\<close>

theorem validate_content_none_tier_blocked_within_allowance:
  "validate_content 4 (Some ''Short text.'') (Some (JObj none_tier_context)) (Some 2)
     = Inr \<lparr>approved = False, reasons = [NoSourceData (25 / 100)],
            warnings = [WordCountBelow 2 24]\<rparr>
   \<and> \<not> (25 / 100 > MAX_HALLUCINATION_RATE_NONE)"
  by (simp add: validate_content_def context_dict_def dict_get_def Let_def KNOWN_DESTINATIONS_def
        MAX_HALLUCINATION_RATE_def MAX_HALLUCINATION_RATE_NONE_def none_tier_context_def
        text_eval)

section \<open>Properties of generation and verification\<close>

lemmas run_eval = process_single_poi_def first_generation_def generate_with_retries_def
  verification_call_def call_mistral_def retry_generation.simps out_of_range_def
  WORD_COUNT_RETRIES_def targets_for_def WORD_TARGETS_def or_default_def
  count_words_def is_space_def startswith_def MISTRAL_MODEL_GENERATE_def
  MISTRAL_MODEL_VERIFY_def Let_def

lemmas parse_eval = parse_verification_def json_object_span_def ensure_verdict_def
  verdict_from_rate_def REVIEW_THRESHOLD_def extract_fields_def verdict_match_def
  match_verdict_at_def match_key_def strip_prefix_def scan_or_error_def keyword_scan_def
  parse_error_def dict_get_def startswith_def is_space_def

lemmas result_eval = verified_result_def status_for_verdict_def STATUS_MAP_def recommend_def
  high_severity_of_def build_llm_context_def staged_entry_of_def

lemma status_for_verdict_cases:
  "status_for_verdict v = Inr st \<Longrightarrow>
     st = (if v = JStr ''PASS'' then Approved else if v = JStr ''REVIEW'' then Pending
           else ReviewRequired)"
  by (auto simp: status_for_verdict_def STATUS_MAP_def split: if_splits json.splits option.splits)

lemma verified_result_status:
  "verified_result fs old_content generated_text word_count retry_count verification = Inr r \<Longrightarrow>
     r_verdict r = dict_get verification ''verdict'' (JStr ''ERROR'')
     \<and> status_for_verdict (r_verdict r) = Inr (r_status r)"
  by (auto simp: verified_result_def Let_def split: sum.splits option.splits)

text \<open>
  Claim C1, as amended. The status a result is staged with is a function of its verdict
  alone: \<open>approved\<close> for PASS, \<open>pending\<close> for REVIEW, \<open>review_required\<close> for FAIL, ERROR
  and any other verdict. The row written to staging carries that status.
\<close>

theorem initial_status_follows_verdict:
  assumes "process_single_poi ev reqs fs old_content = (Inr r, reqs')"
  shows "r_status r = (if r_verdict r = JStr ''PASS'' then Approved
                       else if r_verdict r = JStr ''REVIEW'' then Pending
                       else ReviewRequired)
       \<and> se_status (staged_entry_of r) = r_status r"
proof -
  have "status_for_verdict (r_verdict r) = Inr (r_status r)"
    using assms
    by (auto simp: process_single_poi_def Let_def generation_failed_def status_for_verdict_def
          STATUS_MAP_def dest: verified_result_status split: if_splits sum.splits)
  then show ?thesis
    by (auto dest: status_for_verdict_cases simp: staged_entry_of_def)
qed

lemma demo_review_run:
  "\<exists>r reqs'. process_single_poi
       (demo_env ''A cafe by the harbour.'' review_text (Some review_judgement)) []
       demo_sheet ''old'' = (Inr r, reqs')
     \<and> r_verdict r = JStr ''REVIEW''"
  by (simp add: run_eval parse_eval result_eval demo_env_def demo_sheet_def review_text_def
        review_judgement_def)

theorem initial_status_follows_verdict_witness:
  "\<exists>r reqs'. process_single_poi
       (demo_env ''A cafe by the harbour.'' review_text (Some review_judgement)) []
       demo_sheet ''old'' = (Inr r, reqs')
     \<and> r_verdict r = JStr ''REVIEW'' \<and> r_status r = Pending
     \<and> se_status (staged_entry_of r) = Pending"
proof -
  from demo_review_run obtain r reqs' where
    run: "process_single_poi
       (demo_env ''A cafe by the harbour.'' review_text (Some review_judgement)) []
       demo_sheet ''old'' = (Inr r, reqs')"
    and v: "r_verdict r = JStr ''REVIEW''"
    by blast
  from initial_status_follows_verdict [OF run] v
  have "r_status r = Pending \<and> se_status (staged_entry_of r) = Pending" by simp
  with run v show ?thesis by blast
qed

text \<open>
  Claim C1 as stated fails: the result of a PASS verdict is created with the status
  \<open>approved\<close>, not \<open>pending\<close>, and is written to staging so.
\<close>

theorem pass_verdict_is_staged_approved:
  "\<exists>r reqs'. process_single_poi
       (demo_env ''A cafe by the harbour.'' pass_text (Some pass_judgement)) []
       demo_sheet ''old'' = (Inr r, reqs')
     \<and> r_verdict r = JStr ''PASS'' \<and> r_status r = Approved
     \<and> se_status (staged_entry_of r) = Approved
     \<and> write_to_staging [r] \<lparr>checkpoint_file = None, results_file = None, staging_writes = []\<rparr>
         = \<lparr>checkpoint_file = None, results_file = None, staging_writes = [staged_entry_of r]\<rparr>"
  by (simp add: run_eval parse_eval result_eval demo_env_def demo_sheet_def pass_text_def
        pass_judgement_def write_to_staging_def)

section \<open>Properties of the verification parser and the retry\<close>



lemma parse_verification_strict:
  assumes "\<not> startswith response ''ERROR:''"
    and "json_object_span response = Some json_str"
    and "json_loads json_str = Some parsed"
  shows "parse_verification json_loads response = ensure_verdict parsed"
  using assms by (simp add: parse_verification_def)


























text \<open>
  Claim C9. The first generation call uses the temperature 0.4; retry number \<open>k\<close> uses
  \<open>0.3 + k * 0.1\<close>, and \<open>WORD_COUNT_RETRIES\<close> is 1. For a fact sheet of tier \<open>rich\<close> (110
  to 140 words) and a service that answers with five words, the run makes one retry,
  accepts the text with \<open>word_count_ok = False\<close> and goes on to verification. The
  temperatures of its three requests are 0.4, 0.4 and 0.1: the retry repeats the
  temperature of the first call.
\<close>

theorem retry_repeats_the_first_temperature:
  "\<exists>r reqs'. process_single_poi (demo_env ''A cafe by the harbour.'' pass_text (Some pass_judgement))
                  [] demo_sheet ''old'' = (Inr r, reqs')
     \<and> r_word_count r = Some 5 \<and> r_word_retries r = Some 1 \<and> r_word_count_ok r = Some False
     \<and> r_new_content r = ''A cafe by the harbour.''
     \<and> map rq_max_tokens reqs' = [400, 400, 1500]
     \<and> map rq_temperature reqs' = [4 / 10, 4 / 10, 1 / 10]"
  by (simp add: run_eval parse_eval result_eval demo_env_def demo_sheet_def pass_text_def
        pass_judgement_def)

section \<open>Properties of promotion and rollback\<close>

subsection \<open>One step of promotion\<close>

lemma promote_row_poi_none:
  "poi (fst (promote_row d r)) p = None \<longleftrightarrow> poi d p = None"
  by (auto simp: promote_row_def split: option.splits)

lemma promote_row_staging:
  "staging (fst (promote_row d r))
     = (if poi d (s_poi_id r) = None then staging d else mark_applied (s_id r) (staging d))"
  by (auto simp: promote_row_def split: option.splits)

lemma promote_row_absent:
  "poi d (s_poi_id r) = None \<Longrightarrow> promote_row d r = (d, False)"
  by (simp add: promote_row_def)

lemma mark_applied_selected:
  assumes "s \<in> set (mark_applied i rows)" and "selected_for_promotion s"
  shows "s \<in> set rows \<and> s_id s \<noteq> i"
  using assms
  by (auto simp: mark_applied_def selected_for_promotion_def split: if_splits)

lemma promote_row_selected:
  assumes "s \<in> set (staging (fst (promote_row d r)))" and "selected_for_promotion s"
  shows "s \<in> set (staging d) \<and> (poi d (s_poi_id r) \<noteq> None \<longrightarrow> s_id s \<noteq> s_id r)"
  using assms mark_applied_selected [of s "s_id r" "staging d"]
  by (auto simp: promote_row_staging split: if_splits)

subsection \<open>The loop\<close>

lemma promote_rows_db:
  "snd (promote_rows rows d n) = snd (promote_rows rows d m)"
  by (induction rows arbitrary: d n m) (auto split: prod.splits)

lemma promote_rows_Cons:
  "snd (promote_rows (r # rows) d n) = snd (promote_rows rows (fst (promote_row d r)) n)"
proof (cases "promote_row d r")
  case (Pair d' ok)
  then show ?thesis
    using promote_rows_db [of rows d' "if ok then n + 1 else n" n] by simp
qed

declare promote_rows.simps(2) [simp del]

lemma promote_rows_append:
  "snd (promote_rows (xs @ ys) d n) = snd (promote_rows ys (snd (promote_rows xs d n)) n)"
  by (induction xs arbitrary: d) (simp_all add: promote_rows_Cons)

lemma promote_rows_poi_none:
  "poi (snd (promote_rows rows d n)) p = None \<longleftrightarrow> poi d p = None"
  by (induction rows arbitrary: d) (simp_all add: promote_rows_Cons promote_row_poi_none)

lemma promote_rows_selected:
  assumes "s \<in> set (staging (snd (promote_rows rows d n)))" and "selected_for_promotion s"
  shows "s \<in> set (staging d)"
  using assms
proof (induction rows arbitrary: d)
  case Nil
  then show ?case by simp
next
  case (Cons r rows)
  from Cons.prems have "s \<in> set (staging (fst (promote_row d r)))"
    by (auto simp: promote_rows_Cons dest: Cons.IH)
  with Cons.prems(2) show ?case
    using promote_row_selected by blast
qed

lemma promote_rows_processed:
  assumes "s \<in> set (staging (snd (promote_rows rows d n)))"
    and "selected_for_promotion s" and "s \<in> set rows"
  shows "poi d (s_poi_id s) = None"
  using assms
proof (induction rows arbitrary: d)
  case Nil
  then show ?case by simp
next
  case (Cons r rows)
  let ?d1 = "fst (promote_row d r)"
  from Cons.prems(1) have in_final: "s \<in> set (staging (snd (promote_rows rows ?d1 n)))"
    by (simp add: promote_rows_Cons)
  show ?case
  proof (cases "s \<in> set rows")
    case True
    with in_final Cons.prems(2) have "poi ?d1 (s_poi_id s) = None"
      by (rule Cons.IH)
    then show ?thesis by (simp add: promote_row_poi_none)
  next
    case False
    with Cons.prems(3) have eq: "s = r" by simp
    from in_final Cons.prems(2) have "s \<in> set (staging ?d1)"
      by (rule promote_rows_selected)
    with Cons.prems(2) have "poi d (s_poi_id r) \<noteq> None \<longrightarrow> s_id s \<noteq> s_id r"
      using promote_row_selected by blast
    with eq show ?thesis by auto
  qed
qed

lemma promote_rows_absent:
  assumes "\<And>r. r \<in> set rows \<Longrightarrow> poi d (s_poi_id r) = None"
  shows "promote_rows rows d n = (n, d)"
  using assms
  by (induction rows) (simp_all add: promote_row_absent promote_rows.simps(2))

lemma promote_twice:
  "snd (promote_to_production (snd (promote_to_production d False)) False)
     = snd (promote_to_production d False)"
proof -
  let ?rows = "filter selected_for_promotion (staging d)"
  let ?d1 = "snd (promote_rows ?rows d 0)"
  have first: "snd (promote_to_production d False) = ?d1"
    by (simp add: promote_to_production_def Let_def)
  have absent: "poi ?d1 (s_poi_id s) = None"
    if "s \<in> set (filter selected_for_promotion (staging ?d1))" for s
  proof -
    from that have a: "s \<in> set (staging ?d1)" and b: "selected_for_promotion s" by auto
    from a b have "s \<in> set (staging d)" by (rule promote_rows_selected)
    with b have "s \<in> set ?rows" by simp
    with a b have "poi d (s_poi_id s) = None" by (rule promote_rows_processed)
    then show ?thesis by (simp add: promote_rows_poi_none)
  qed
  have "promote_rows (filter selected_for_promotion (staging ?d1)) ?d1 0 = (0, ?d1)"
    by (rule promote_rows_absent) (rule absent)
  then have "snd (promote_to_production ?d1 False) = ?d1"
    by (simp add: promote_to_production_def Let_def)
  with first show ?thesis by simp
qed


subsection \<open>Rows of other POIs\<close>

lemma find_rev_snoc:
  "find P (rev (hs @ [e])) = (if P e then Some e else find P (rev hs))"
  by simp

lemma promote_row_other:
  assumes "s_poi_id r \<noteq> p"
  shows "poi (fst (promote_row d r)) p = poi d p"
    and "history_for (fst (promote_row d r)) p = history_for d p"
    and "writes_for (fst (promote_row d r)) p = writes_for d p"
    and "latest_history (fst (promote_row d r)) p = latest_history d p"
  using assms
  by (auto simp: promote_row_def history_for_def writes_for_def latest_history_def
        promotion_entry_def split: option.splits)

lemma promote_rows_other:
  assumes "\<And>r. r \<in> set rows \<Longrightarrow> s_poi_id r \<noteq> p"
  shows "poi (snd (promote_rows rows d n)) p = poi d p
       \<and> history_for (snd (promote_rows rows d n)) p = history_for d p
       \<and> writes_for (snd (promote_rows rows d n)) p = writes_for d p
       \<and> latest_history (snd (promote_rows rows d n)) p = latest_history d p"
  using assms
proof (induction rows arbitrary: d)
  case Nil
  then show ?case by simp
next
  case (Cons r rows)
  have r: "s_poi_id r \<noteq> p" using Cons.prems by simp
  have rest: "\<And>u. u \<in> set rows \<Longrightarrow> s_poi_id u \<noteq> p" using Cons.prems by simp
  show ?case
    using Cons.IH [OF rest, of "fst (promote_row d r)"] promote_row_other [OF r, of d]
    by (simp add: promote_rows_Cons)
qed

subsection \<open>The row itself\<close>

lemma promote_row_same_content:
  assumes "poi d (s_poi_id x) = Some (s_detail_description_en x)"
  shows "fst (promote_row d x) = d\<lparr>staging := mark_applied (s_id x) (staging d)\<rparr>"
  using assms by (simp add: promote_row_def)

lemma promote_row_new_content:
  assumes "poi d (s_poi_id x) = Some c" and "c \<noteq> s_detail_description_en x"
  shows "fst (promote_row d x)
         = d\<lparr>poi := (poi d)(s_poi_id x \<mapsto> s_detail_description_en x),
              production_writes := production_writes d
                  @ [(s_poi_id x, s_detail_description_en x)],
              history := history d @ [promotion_entry x c],
              staging := mark_applied (s_id x) (staging d)\<rparr>"
  using assms by (simp add: promote_row_def)

lemma promote_row_effect:
  assumes "poi d (s_poi_id x) = Some c"
  shows "poi (fst (promote_row d x)) (s_poi_id x) = Some (s_detail_description_en x)"
    and "history_for (fst (promote_row d x)) (s_poi_id x)
         = history_for d (s_poi_id x)
           @ (if c = s_detail_description_en x then [] else [promotion_entry x c])"
    and "writes_for (fst (promote_row d x)) (s_poi_id x)
         = writes_for d (s_poi_id x)
           @ (if c = s_detail_description_en x then []
              else [(s_poi_id x, s_detail_description_en x)])"
    and "latest_history (fst (promote_row d x)) (s_poi_id x)
         = (if c = s_detail_description_en x then latest_history d (s_poi_id x)
            else Some (promotion_entry x c))"
  using assms
  by (auto simp: promote_row_def history_for_def writes_for_def latest_history_def
        promotion_entry_def)

subsection \<open>The status of the row\<close>

lemma applied_again: "s_status s = Applied \<Longrightarrow> s\<lparr>s_status := Applied\<rparr> = s"
  by simp

lemma mark_applied_member:
  "s \<in> set rows \<Longrightarrow> (if s_id s = i then s\<lparr>s_status := Applied\<rparr> else s) \<in> set (mark_applied i rows)"
  by (force simp: mark_applied_def)

lemma promote_row_keeps_applied:
  assumes "x\<lparr>s_status := Applied\<rparr> \<in> set (staging d)"
  shows "x\<lparr>s_status := Applied\<rparr> \<in> set (staging (fst (promote_row d r)))"
proof -
  have "x\<lparr>s_status := Applied\<rparr> \<in> set (mark_applied (s_id r) (staging d))"
    using mark_applied_member [OF assms, of "s_id r"] by (simp split: if_splits)
  with assms show ?thesis
    by (simp add: promote_row_staging)
qed

lemma promote_rows_keep_applied:
  assumes "x\<lparr>s_status := Applied\<rparr> \<in> set (staging d)"
  shows "x\<lparr>s_status := Applied\<rparr> \<in> set (staging (snd (promote_rows rows d n)))"
  using assms
  by (induction rows arbitrary: d) (simp_all add: promote_rows_Cons promote_row_keeps_applied)

lemma promote_row_present:
  assumes "x \<in> set (staging d) \<or> x\<lparr>s_status := Applied\<rparr> \<in> set (staging d)"
  shows "x \<in> set (staging (fst (promote_row d r)))
       \<or> x\<lparr>s_status := Applied\<rparr> \<in> set (staging (fst (promote_row d r)))"
proof -
  from assms show ?thesis
  proof
    assume "x \<in> set (staging d)"
    from mark_applied_member [OF this, of "s_id r"] this show ?thesis
      by (auto simp: promote_row_staging split: if_splits)
  next
    assume "x\<lparr>s_status := Applied\<rparr> \<in> set (staging d)"
    then show ?thesis by (simp add: promote_row_keeps_applied)
  qed
qed

lemma promote_rows_present:
  assumes "x \<in> set (staging d) \<or> x\<lparr>s_status := Applied\<rparr> \<in> set (staging d)"
  shows "x \<in> set (staging (snd (promote_rows rows d n)))
       \<or> x\<lparr>s_status := Applied\<rparr> \<in> set (staging (snd (promote_rows rows d n)))"
  using assms
proof (induction rows arbitrary: d)
  case Nil
  then show ?case by simp
next
  case (Cons r rows)
  from promote_row_present [OF Cons.prems, of r] show ?case
    by (simp add: promote_rows_Cons Cons.IH)
qed

lemma promote_row_applies:
  assumes "x \<in> set (staging d) \<or> x\<lparr>s_status := Applied\<rparr> \<in> set (staging d)"
    and "poi d (s_poi_id x) \<noteq> None"
  shows "x\<lparr>s_status := Applied\<rparr> \<in> set (staging (fst (promote_row d x)))"
proof -
  from assms(1) show ?thesis
  proof
    assume "x \<in> set (staging d)"
    from mark_applied_member [OF this, of "s_id x"]
    have "x\<lparr>s_status := Applied\<rparr> \<in> set (mark_applied (s_id x) (staging d))"
      by simp
    with assms(2) show ?thesis
      by (auto simp: promote_row_staging)
  next
    assume "x\<lparr>s_status := Applied\<rparr> \<in> set (staging d)"
    then show ?thesis by (simp add: promote_row_keeps_applied)
  qed
qed

subsection \<open>Promotion of the only approved row of a POI\<close>

lemma sole_row_split:
  assumes "sole_approved_row d x"
  shows "\<exists>pre post. filter selected_for_promotion (staging d) = pre @ x # post
           \<and> (\<forall>u \<in> set pre. s_poi_id u \<noteq> s_poi_id x)
           \<and> (\<forall>u \<in> set post. s_poi_id u \<noteq> s_poi_id x)"
proof -
  let ?P = "\<lambda>s. s_poi_id s = s_poi_id x"
  let ?rows = "filter selected_for_promotion (staging d)"
  from assms have eq: "filter ?P ?rows = [x]"
    by (simp only: sole_approved_row_def)
  have "\<exists>us vs. ?rows = us @ x # vs \<and> (\<forall>u \<in> set us. \<not> ?P u) \<and> ?P x
          \<and> [] = filter ?P vs"
    by (rule iffD1 [OF filter_eq_Cons_iff]) (rule eq)
  then obtain us vs where
    split: "?rows = us @ x # vs"
    and us: "\<forall>u \<in> set us. \<not> ?P u" and vs: "[] = filter ?P vs"
    by (elim exE conjE)
  have "\<forall>u \<in> set vs. \<not> ?P u"
    by (rule iffD1 [OF filter_empty_conv]) (rule vs [symmetric])
  with split us show ?thesis by (intro exI [of _ us] exI [of _ vs]) simp
qed

lemma promote_sole_row:
  assumes sole: "sole_approved_row d x" and present: "poi d (s_poi_id x) = Some c"
  shows "poi (snd (promote_to_production d False)) (s_poi_id x) = Some (s_detail_description_en x)
       \<and> history_for (snd (promote_to_production d False)) (s_poi_id x)
           = history_for d (s_poi_id x)
             @ (if c = s_detail_description_en x then [] else [promotion_entry x c])
       \<and> writes_for (snd (promote_to_production d False)) (s_poi_id x)
           = writes_for d (s_poi_id x)
             @ (if c = s_detail_description_en x then []
                else [(s_poi_id x, s_detail_description_en x)])
       \<and> latest_history (snd (promote_to_production d False)) (s_poi_id x)
           = (if c = s_detail_description_en x then latest_history d (s_poi_id x)
              else Some (promotion_entry x c))
       \<and> x\<lparr>s_status := Applied\<rparr> \<in> set (staging (snd (promote_to_production d False)))"
proof -
  let ?p = "s_poi_id x"
  from sole_row_split [OF sole] obtain pre post where
    rows: "filter selected_for_promotion (staging d) = pre @ x # post"
    and pre: "\<And>u. u \<in> set pre \<Longrightarrow> s_poi_id u \<noteq> ?p"
    and post: "\<And>u. u \<in> set post \<Longrightarrow> s_poi_id u \<noteq> ?p"
    by blast
  let ?d0 = "snd (promote_rows pre d 0)"
  let ?dx = "fst (promote_row ?d0 x)"
  let ?d1 = "snd (promote_rows post ?dx 0)"
  have run: "snd (promote_to_production d False) = ?d1"
    by (simp add: promote_to_production_def rows promote_rows_append promote_rows_Cons)
  have "x \<in> set (filter selected_for_promotion (staging d))"
    by (simp add: rows)
  then have x_in: "x \<in> set (staging d)" by simp
  have before: "poi ?d0 ?p = poi d ?p \<and> history_for ?d0 ?p = history_for d ?p
      \<and> writes_for ?d0 ?p = writes_for d ?p \<and> latest_history ?d0 ?p = latest_history d ?p"
    by (rule promote_rows_other) (rule pre)
  have present0: "poi ?d0 ?p = Some c" using before present by simp
  note at = promote_row_effect [OF present0]
  have after: "poi ?d1 ?p = poi ?dx ?p \<and> history_for ?d1 ?p = history_for ?dx ?p
      \<and> writes_for ?d1 ?p = writes_for ?dx ?p \<and> latest_history ?d1 ?p = latest_history ?dx ?p"
    by (rule promote_rows_other) (rule post)
  have "x \<in> set (staging ?d0) \<or> x\<lparr>s_status := Applied\<rparr> \<in> set (staging ?d0)"
    by (rule promote_rows_present) (simp add: x_in)
  then have "x\<lparr>s_status := Applied\<rparr> \<in> set (staging ?dx)"
    by (rule promote_row_applies) (simp add: present0)
  then have applied: "x\<lparr>s_status := Applied\<rparr> \<in> set (staging ?d1)"
    by (rule promote_rows_keep_applied)
  have c1: "poi ?d1 ?p = Some (s_detail_description_en x)"
    using after at(1) by simp
  have c2: "history_for ?d1 ?p = history_for d ?p
             @ (if c = s_detail_description_en x then [] else [promotion_entry x c])"
    using after at(2) before by simp
  have c3: "writes_for ?d1 ?p = writes_for d ?p
             @ (if c = s_detail_description_en x then []
                else [(s_poi_id x, s_detail_description_en x)])"
    using after at(3) before by simp
  have c4: "latest_history ?d1 ?p
           = (if c = s_detail_description_en x then latest_history d ?p
              else Some (promotion_entry x c))"
    using after at(4) before by simp
  show ?thesis
    unfolding run using c1 c2 c3 c4 applied by blast
qed

subsection \<open>One promotion of one row\<close>

lemma mark_applied_not_selected:
  "list_all (\<lambda>s. s_id s = i \<longrightarrow> \<not> selected_for_promotion s) (mark_applied i rows)"
  by (induction rows) (simp_all add: mark_applied_def selected_for_promotion_def)

lemma promote_row_once:
  assumes "poi d (s_poi_id x) = Some c" and "x \<in> set (staging d)"
  shows "history (fst (promote_row d x))
           = history d @ (if c = s_detail_description_en x then [] else [promotion_entry x c])
       \<and> production_writes (fst (promote_row d x))
           = production_writes d
             @ (if c = s_detail_description_en x then []
                else [(s_poi_id x, s_detail_description_en x)])
       \<and> poi (fst (promote_row d x)) (s_poi_id x) = Some (s_detail_description_en x)
       \<and> x\<lparr>s_status := Applied\<rparr> \<in> set (staging (fst (promote_row d x)))
       \<and> list_all (\<lambda>s. s_id s = s_id x \<longrightarrow> \<not> selected_for_promotion s)
           (staging (fst (promote_row d x)))"
proof -
  have st: "staging (fst (promote_row d x)) = mark_applied (s_id x) (staging d)"
    using assms(1) by (simp add: promote_row_def)
  have applied: "x\<lparr>s_status := Applied\<rparr> \<in> set (staging (fst (promote_row d x)))"
    by (rule promote_row_applies) (use assms in simp_all)
  have rest: "history (fst (promote_row d x))
           = history d @ (if c = s_detail_description_en x then [] else [promotion_entry x c])
       \<and> production_writes (fst (promote_row d x))
           = production_writes d
             @ (if c = s_detail_description_en x then []
                else [(s_poi_id x, s_detail_description_en x)])
       \<and> poi (fst (promote_row d x)) (s_poi_id x) = Some (s_detail_description_en x)"
    using assms(1) by (simp add: promote_row_def)
  from rest applied mark_applied_not_selected [of "s_id x" "staging d"] show ?thesis
    unfolding st by blast
qed

section \<open>Idempotent promotion and rollback\<close>

lemmas db_eval = promote_to_production_def promote_rows.simps(2) promote_row_def
  selected_for_promotion_def R4_BATCH_DATE_def mark_applied_def promotion_entry_def
  rollback_poi_def rollback_source_def latest_history_def latest_staging_def
  rollback_entry_def reject_applied_def text_truthy_def or_default_def
  history_for_def writes_for_def sole_approved_row_def demo_db_def demo_row_def Let_def


text \<open>
  Claim C7, as amended. A second run of \<open>promote_to_production\<close> (in execute mode) leaves the
  database as the first run left it: no further audit entry, no further production
  write, no change of status. For a staging row that is the only approved row of the
  batch for its POI, and whose POI is in the production table with the text \<open>c\<close>, the
  two runs together add exactly one audit entry and one production write for the POI
  when the candidate differs from \<open>c\<close>, and none when the candidate equals \<open>c\<close>; in both
  cases the production text is the candidate and the row is \<open>applied\<close>.
  The last conjunct is the step for one row: for a row of the staging table whose POI
  is in the production table with the text \<open>c\<close> at that moment, one promotion of the row
  appends exactly one audit entry and one production write when the candidate differs
  from \<open>c\<close>, and none when it equals \<open>c\<close>; the row is \<open>applied\<close> afterwards, and no row with
  its id is selected by a later run.
\<close>

theorem promotion_idempotent:
  "snd (promote_to_production (snd (promote_to_production d False)) False)
     = snd (promote_to_production d False)
   \<and> (sole_approved_row d x \<and> poi d (s_poi_id x) = Some c
        \<longrightarrow> (let twice = snd (promote_to_production (snd (promote_to_production d False)) False)
             in history_for twice (s_poi_id x)
                  = history_for d (s_poi_id x)
                    @ (if c = s_detail_description_en x then [] else [promotion_entry x c])
              \<and> writes_for twice (s_poi_id x)
                  = writes_for d (s_poi_id x)
                    @ (if c = s_detail_description_en x then []
                       else [(s_poi_id x, s_detail_description_en x)])
              \<and> poi twice (s_poi_id x) = Some (s_detail_description_en x)
              \<and> x\<lparr>s_status := Applied\<rparr> \<in> set (staging twice)))
   \<and> (x \<in> set (staging d) \<and> poi d (s_poi_id x) = Some c
        \<longrightarrow> (let once = fst (promote_row d x)
             in history once
                  = history d @ (if c = s_detail_description_en x then []
                                 else [promotion_entry x c])
              \<and> production_writes once
                  = production_writes d
                    @ (if c = s_detail_description_en x then []
                       else [(s_poi_id x, s_detail_description_en x)])
              \<and> poi once (s_poi_id x) = Some (s_detail_description_en x)
              \<and> x\<lparr>s_status := Applied\<rparr> \<in> set (staging once)
              \<and> list_all (\<lambda>s. s_id s = s_id x \<longrightarrow> \<not> selected_for_promotion s)
                  (staging once)))"
    (is "?twice \<and> ?run \<and> ?row")
proof -
  have twice: "snd (promote_to_production (snd (promote_to_production d False)) False)
     = snd (promote_to_production d False)"
    by (rule promote_twice)
  have run: ?run
    unfolding twice Let_def using promote_sole_row [of d x c] by blast
  have row: ?row
    unfolding Let_def using promote_row_once [of d x c] by blast
  show ?thesis by (rule conjI [OF twice conjI [OF run row]])
qed

theorem promotion_idempotent_witness:
  "sole_approved_row (demo_db ''Old text'' ''New text'' []) (demo_row ''Old text'' ''New text'')
   \<and> history_for (snd (promote_to_production
          (snd (promote_to_production (demo_db ''Old text'' ''New text'' []) False)) False)) 7
       = [promotion_entry (demo_row ''Old text'' ''New text'') (Some ''Old text'')]
   \<and> writes_for (snd (promote_to_production
          (snd (promote_to_production (demo_db ''Old text'' ''New text'' []) False)) False)) 7
       = [(7, Some ''New text'')]"
proof -
  have sole: "sole_approved_row (demo_db ''Old text'' ''New text'' [])
                (demo_row ''Old text'' ''New text'')"
    by (simp add: sole_approved_row_def demo_db_def demo_row_def selected_for_promotion_def
          R4_BATCH_DATE_def)
  have present: "poi (demo_db ''Old text'' ''New text'' [])
                   (s_poi_id (demo_row ''Old text'' ''New text'')) = Some (Some ''Old text'')"
    by (simp add: demo_db_def demo_row_def)
  have differs: "Some ''Old text'' \<noteq> s_detail_description_en (demo_row ''Old text'' ''New text'')"
    by (simp add: demo_row_def)
  have p: "s_poi_id (demo_row ''Old text'' ''New text'') = 7"
    by (simp add: demo_row_def)
  have empty: "history_for (demo_db ''Old text'' ''New text'' []) 7 = []
      \<and> writes_for (demo_db ''Old text'' ''New text'' []) 7 = []"
    by (simp add: history_for_def writes_for_def demo_db_def)
  have cand: "s_detail_description_en (demo_row ''Old text'' ''New text'') = Some ''New text''"
    by (simp add: demo_row_def)
  let ?twice = "snd (promote_to_production
          (snd (promote_to_production (demo_db ''Old text'' ''New text'' []) False)) False)"
  note T = promotion_idempotent [of "demo_db ''Old text'' ''New text'' []"
      "demo_row ''Old text'' ''New text''" "Some ''Old text''", THEN conjunct2, THEN conjunct1]
  from T have "sole_approved_row (demo_db ''Old text'' ''New text'' [])
                 (demo_row ''Old text'' ''New text'')
               \<and> poi (demo_db ''Old text'' ''New text'' [])
                   (s_poi_id (demo_row ''Old text'' ''New text'')) = Some (Some ''Old text'')
      \<longrightarrow> history_for ?twice (s_poi_id (demo_row ''Old text'' ''New text''))
            = history_for (demo_db ''Old text'' ''New text'' [])
                (s_poi_id (demo_row ''Old text'' ''New text''))
              @ (if Some ''Old text'' = s_detail_description_en (demo_row ''Old text'' ''New text'')
                 then [] else [promotion_entry (demo_row ''Old text'' ''New text'')
                                 (Some ''Old text'')])
          \<and> writes_for ?twice (s_poi_id (demo_row ''Old text'' ''New text''))
            = writes_for (demo_db ''Old text'' ''New text'' [])
                (s_poi_id (demo_row ''Old text'' ''New text''))
              @ (if Some ''Old text'' = s_detail_description_en (demo_row ''Old text'' ''New text'')
                 then [] else [(s_poi_id (demo_row ''Old text'' ''New text''),
                                s_detail_description_en (demo_row ''Old text'' ''New text''))])"
    unfolding Let_def by blast
  with sole present have "history_for ?twice 7
       = [promotion_entry (demo_row ''Old text'' ''New text'') (Some ''Old text'')]
     \<and> writes_for ?twice 7 = [(7, Some ''New text'')]"
    by (simp add: p cand empty)
  with sole show ?thesis by simp
qed


text \<open>
  Claim C7 as stated fails in two situations. When the POI of an approved row is not in
  the production table, the row is skipped with a warning: two runs write no audit entry
  and no production text, and the row stays \<open>approved\<close> and is selected again. When the
  batch has a second approved row for the same POI, both rows are written in one run:
  the POI gets two audit entries and two production writes, and the second row, whose
  candidate equals the production text at the time of the call, is written nevertheless,
  because the first row has changed the production text before.
\<close>

theorem promotion_skips_missing_item_and_repeats_for_second_row:
  "poi orphan_db 7 = None
   \<and> snd (promote_to_production orphan_db False) = orphan_db
   \<and> history_for (snd (promote_to_production (snd (promote_to_production orphan_db False))
         False)) 7 = []
   \<and> writes_for (snd (promote_to_production (snd (promote_to_production orphan_db False))
         False)) 7 = []
   \<and> filter selected_for_promotion
        (staging (snd (promote_to_production (snd (promote_to_production orphan_db False))
           False)))
       = [demo_row ''Old text'' ''New text'']
   \<and> poi (two_row_db ''Old text'' ''Text A'' ''Old text'') 7 = Some (Some ''Old text'')
   \<and> s_detail_description_en (second_row ''Old text'' ''Old text'') = Some ''Old text''
   \<and> filter selected_for_promotion (staging (two_row_db ''Old text'' ''Text A'' ''Old text''))
       = [demo_row ''Old text'' ''Text A'', second_row ''Old text'' ''Old text'']
   \<and> history_for (snd (promote_to_production
          (snd (promote_to_production (two_row_db ''Old text'' ''Text A'' ''Old text'') False))
          False)) 7
       = [promotion_entry (demo_row ''Old text'' ''Text A'') (Some ''Old text''),
          promotion_entry (second_row ''Old text'' ''Old text'') (Some ''Text A'')]
   \<and> writes_for (snd (promote_to_production
          (snd (promote_to_production (two_row_db ''Old text'' ''Text A'' ''Old text'') False))
          False)) 7
       = [(7, Some ''Text A''), (7, Some ''Old text'')]"
  by (simp add: db_eval orphan_db_def second_row_def two_row_db_def)


lemma reject_applied_member:
  assumes "s \<in> set rows" and "s_poi_id s = p" and "s_created_date s = R4_BATCH_DATE"
    and "s_status s = Applied"
  shows "s\<lparr>s_status := Rejected, s_review_notes := Some ''Rolled back via R5''\<rparr>
           \<in> set (reject_applied p rows)"
  using assms by (force simp: reject_applied_def)

lemma reject_applied_none_left:
  "list_all (\<lambda>s. \<not> (s_poi_id s = p \<and> s_created_date s = R4_BATCH_DATE \<and> s_status s = Applied))
     (reject_applied p rows)"
  by (induction rows) (simp_all add: reject_applied_def)

lemma rollback_from_history:
  assumes "latest_history d p = Some h" and "h_old_value h = Some old" and "old \<noteq> []"
    and "poi d p = Some current"
  shows "rollback_poi d p False
         = (True, d\<lparr>poi := (poi d)(p \<mapsto> Some old),
                     production_writes := production_writes d @ [(p, Some old)],
                     history := history d @ [rollback_entry p (Some current) (Some old)],
                     staging := reject_applied p (staging d)\<rparr>)"
  using assms by (simp add: rollback_poi_def rollback_source_def text_truthy_def)

text \<open>
  Claim C8, as amended. Let a staging row be the only approved row of the batch for its
  POI, let the production text \<open>old\<close> of the POI be non-empty, and let the candidate
  differ from it. After the promotion, the rollback of the POI succeeds, the production
  text is \<open>old\<close> again, the audit trail has grown by exactly one entry, whose source is
  \<open>rollback\<close>, and the row is \<open>rejected\<close>; no row of the batch for the POI is left
  \<open>applied\<close>.
\<close>

theorem rollback_restores_promoted_content:
  assumes "sole_approved_row d x"
    and "poi d (s_poi_id x) = Some (Some old)"
    and "old \<noteq> []"
    and "s_detail_description_en x \<noteq> Some old"
  shows "(let d1 = snd (promote_to_production d False);
              res = rollback_poi d1 (s_poi_id x) False;
              d2 = snd res
          in fst res
           \<and> poi d2 (s_poi_id x) = Some (Some old)
           \<and> history d2
               = history d1
                 @ [rollback_entry (s_poi_id x) (Some (s_detail_description_en x)) (Some old)]
           \<and> h_change_source (last (history d2)) = ''rollback''
           \<and> x\<lparr>s_status := Rejected, s_review_notes := Some ''Rolled back via R5''\<rparr>
               \<in> set (staging d2)
           \<and> list_all (\<lambda>s. \<not> (s_poi_id s = s_poi_id x \<and> s_created_date s = R4_BATCH_DATE
                                \<and> s_status s = Applied)) (staging d2))"
proof -
  let ?p = "s_poi_id x"
  let ?d1 = "snd (promote_to_production d False)"
  from assms(4) have differs: "Some old \<noteq> s_detail_description_en x" by simp
  note P = promote_sole_row [OF assms(1,2)]
  from P have current: "poi ?d1 ?p = Some (s_detail_description_en x)" by blast
  from P differs have latest: "latest_history ?d1 ?p = Some (promotion_entry x (Some old))"
    by simp
  from P have applied: "x\<lparr>s_status := Applied\<rparr> \<in> set (staging ?d1)" by blast
  have old_value: "h_old_value (promotion_entry x (Some old)) = Some old"
    by (simp add: promotion_entry_def)
  note R = rollback_from_history [OF latest old_value assms(3) current]
  from sole_row_split [OF assms(1)] obtain pre post where
    "filter selected_for_promotion (staging d) = pre @ x # post"
    by blast
  then have "x \<in> set (filter selected_for_promotion (staging d))"
    by (simp only: set_append list.set) simp
  then have date: "s_created_date x = R4_BATCH_DATE"
    by (simp add: selected_for_promotion_def)
  have rejected: "x\<lparr>s_status := Rejected, s_review_notes := Some ''Rolled back via R5''\<rparr>
      \<in> set (reject_applied ?p (staging ?d1))"
    using reject_applied_member [OF applied, of ?p] date by simp
  show ?thesis
    unfolding Let_def R
    using rejected reject_applied_none_left [of ?p "staging ?d1"]
    by (simp add: rollback_entry_def)
qed

theorem rollback_restores_promoted_content_witness:
  "fst (rollback_poi (snd (promote_to_production (demo_db ''Old text'' ''New text'' []) False))
          7 False)
   \<and> poi (snd (rollback_poi
               (snd (promote_to_production (demo_db ''Old text'' ''New text'' []) False))
               7 False)) 7
       = Some (Some ''Old text'')
   \<and> poi (snd (promote_to_production (demo_db ''Old text'' ''New text'' []) False)) 7
       = Some (Some ''New text'')"
proof -
  have sole: "sole_approved_row (demo_db ''Old text'' ''New text'' [])
                (demo_row ''Old text'' ''New text'')"
    by (simp add: sole_approved_row_def demo_db_def demo_row_def selected_for_promotion_def
          R4_BATCH_DATE_def)
  have p: "s_poi_id (demo_row ''Old text'' ''New text'') = 7"
    by (simp add: demo_row_def)
  have present: "poi (demo_db ''Old text'' ''New text'' [])
                   (s_poi_id (demo_row ''Old text'' ''New text'')) = Some (Some ''Old text'')"
    by (simp add: demo_db_def demo_row_def)
  have nonempty: "''Old text'' \<noteq> []" by simp
  have differs: "s_detail_description_en (demo_row ''Old text'' ''New text'') \<noteq> Some ''Old text''"
    by (simp add: demo_row_def)
  from rollback_restores_promoted_content [OF sole present nonempty differs]
  have "fst (rollback_poi (snd (promote_to_production (demo_db ''Old text'' ''New text'' [])
                  False)) 7 False)
      \<and> poi (snd (rollback_poi
               (snd (promote_to_production (demo_db ''Old text'' ''New text'' []) False))
               7 False)) 7
          = Some (Some ''Old text'')"
    unfolding Let_def p by blast
  moreover have "poi (snd (promote_to_production (demo_db ''Old text'' ''New text'' []) False)) 7
       = Some (Some ''New text'')"
    by (simp add: db_eval)
  ultimately show ?thesis by blast
qed

text \<open>
  Claim C8 as stated fails in three situations. When the production text was empty before
  the promotion, the rollback refuses (\<open>Old content is empty\<close>) and changes nothing: the
  promoted text stays in production. When the candidate equalled the production text,
  the promotion wrote no audit entry, and the rollback restores the old value of an
  earlier entry instead of the text that was in production before the promotion. When
  the batch has two approved rows for the POI, the promotion writes both, and the
  rollback restores the old value of the latest audit entry, which is the candidate of
  the first row and not the text that was in production before the promotion.
\<close>

theorem rollback_not_inverse_of_promotion:
  "poi (demo_db [] ''New text'' []) 7 = Some (Some [])
   \<and> poi (snd (promote_to_production (demo_db [] ''New text'' []) False)) 7
       = Some (Some ''New text'')
   \<and> \<not> fst (rollback_poi (snd (promote_to_production (demo_db [] ''New text'' []) False))
              7 False)
   \<and> snd (rollback_poi (snd (promote_to_production (demo_db [] ''New text'' []) False)) 7 False)
       = snd (promote_to_production (demo_db [] ''New text'' []) False)
   \<and> poi (demo_db ''Same text'' ''Same text'' [earlier_entry]) 7 = Some (Some ''Same text'')
   \<and> history (snd (promote_to_production (demo_db ''Same text'' ''Same text'' [earlier_entry])
                     False))
       = [earlier_entry]
   \<and> poi (snd (rollback_poi
               (snd (promote_to_production (demo_db ''Same text'' ''Same text'' [earlier_entry])
                       False))
               7 False)) 7
       = Some (Some ''Older text'')
   \<and> poi (two_row_db ''Old text'' ''Text A'' ''Text B'') 7 = Some (Some ''Old text'')
   \<and> filter selected_for_promotion (staging (two_row_db ''Old text'' ''Text A'' ''Text B''))
       = [demo_row ''Old text'' ''Text A'', second_row ''Old text'' ''Text B'']
   \<and> poi (snd (promote_to_production (two_row_db ''Old text'' ''Text A'' ''Text B'') False)) 7
       = Some (Some ''Text B'')
   \<and> fst (rollback_poi
            (snd (promote_to_production (two_row_db ''Old text'' ''Text A'' ''Text B'') False))
            7 False)
   \<and> poi (snd (rollback_poi
               (snd (promote_to_production (two_row_db ''Old text'' ''Text A'' ''Text B'') False))
               7 False)) 7
       = Some (Some ''Text A'')"
  by (simp add: db_eval earlier_entry_def second_row_def two_row_db_def)

section \<open>Properties of the batch runner\<close>

subsection \<open>One item\<close>

lemma verified_result_poi_id:
  "verified_result fs old_content generated_text word_count retry_count verification = Inr r
     \<Longrightarrow> r_poi_id r = fs_poi_id fs"
  by (auto simp: verified_result_def Let_def split: sum.splits option.splits)

lemma process_single_poi_id:
  assumes "process_single_poi ev reqs fs old_content = (Inr r, reqs')"
  shows "r_poi_id r = fs_poi_id fs"
  using assms
  by (auto simp: process_single_poi_def Let_def generation_failed_def
        dest: verified_result_poi_id split: if_splits sum.splits)

subsection \<open>The loop\<close>

lemma run_loop_step:
  assumes "never_raises ev"
  shows "\<exists>r reqs'. process_single_poi ev (rs_requests st) fs
                      (or_default (old_content_map (fs_poi_id fs)) []) = (Inr r, reqs')
           \<and> r_poi_id r = fs_poi_id fs
           \<and> run_loop ev old_content_map (fs # rest) st
               = run_loop ev old_content_map rest (record_result r (fs_poi_id fs) reqs' st)"
proof -
  let ?res = "process_single_poi ev (rs_requests st) fs
                (or_default (old_content_map (fs_poi_id fs)) [])"
  from assms obtain r where "fst ?res = Inr r"
    unfolding never_raises_def by blast
  then obtain reqs' where res: "?res = (Inr r, reqs')" by (cases ?res) simp
  from process_single_poi_id [OF res] have id: "r_poi_id r = fs_poi_id fs" .
  show ?thesis
    by (intro exI [of _ r] exI [of _ reqs']) (simp add: res id)
qed

lemma record_result_fields:
  "rs_results (record_result r i reqs st) = rs_results st @ [r]"
  "rs_completed_ids (record_result r i reqs st) = insert i (rs_completed_ids st)"
  by (simp_all add: record_result_def Let_def)

lemma run_loop_results:
  assumes "never_raises ev"
  shows "fst (run_loop ev old_content_map items st) = None
       \<and> map r_poi_id (rs_results (snd (run_loop ev old_content_map items st)))
           = map r_poi_id (rs_results st) @ map fs_poi_id items
       \<and> rs_completed_ids (snd (run_loop ev old_content_map items st))
           = rs_completed_ids st \<union> set (map fs_poi_id items)"
proof (induction items arbitrary: st)
  case Nil
  show ?case by simp
next
  case (Cons fs rest)
  from run_loop_step [OF assms, of st fs old_content_map rest] obtain r reqs' where
    id: "r_poi_id r = fs_poi_id fs"
    and step: "run_loop ev old_content_map (fs # rest) st
               = run_loop ev old_content_map rest (record_result r (fs_poi_id fs) reqs' st)"
    by blast
  show ?case
    unfolding step using Cons.IH [of "record_result r (fs_poi_id fs) reqs' st"] id
    by (simp add: record_result_fields)
qed

lemma run_loop_checkpoint:
  assumes "never_raises ev" and "items \<noteq> []"
    and "length (rs_batch_for_staging st) + length items = BATCH_SIZE"
  shows "\<exists>ck. checkpoint_file (rs_store (snd (run_loop ev old_content_map items st))) = Some ck
            \<and> ck_completed_ids ck = rs_completed_ids st \<union> set (map fs_poi_id items)
            \<and> ck_results ck = None"
  using assms(2,3)
proof (induction items arbitrary: st)
  case Nil
  then show ?case by simp
next
  case (Cons fs rest)
  from run_loop_step [OF assms(1), of st fs old_content_map rest] obtain r reqs' where
    step: "run_loop ev old_content_map (fs # rest) st
               = run_loop ev old_content_map rest (record_result r (fs_poi_id fs) reqs' st)"
    by blast
  let ?st1 = "record_result r (fs_poi_id fs) reqs' st"
  show ?case
  proof (cases "rest = []")
    case True
    with Cons.prems have full: "length (rs_batch_for_staging st) + 1 = BATCH_SIZE" by simp
    then have "checkpoint_file (rs_store ?st1)
        = Some \<lparr>ck_completed_ids = insert (fs_poi_id fs) (rs_completed_ids st),
                ck_phase = ''generation'',
                ck_stats = compute_stats (rs_results st @ [r]), ck_results = None\<rparr>"
      by (simp add: record_result_def Let_def save_checkpoint_def)
    with True show ?thesis unfolding step by simp
  next
    case False
    with Cons.prems have less: "length (rs_batch_for_staging st) + 1 < BATCH_SIZE"
      by (cases rest) simp_all
    then have batch: "rs_batch_for_staging ?st1 = rs_batch_for_staging st @ [r]"
      by (simp add: record_result_def Let_def)
    have "length (rs_batch_for_staging ?st1) + length rest = BATCH_SIZE"
      using Cons.prems batch by simp
    from Cons.IH [OF False this] show ?thesis
      unfolding step by (auto simp: record_result_fields)
  qed
qed

subsection \<open>A whole run and a resumed run\<close>

lemma unprocessed_after_prefix:
  assumes "distinct (map f xs)"
  shows "filter (\<lambda>x. f x \<notin> set (map f (take k xs))) xs = drop k xs"
proof -
  let ?P = "\<lambda>x. f x \<notin> set (map f (take k xs))"
  have "distinct (map f (take k xs @ drop k xs))"
    using assms by (simp only: append_take_drop_id)
  then have disj: "set (map f (take k xs)) \<inter> set (map f (drop k xs)) = {}"
    by (simp only: map_append distinct_append)
  have skipped: "filter ?P (take k xs) = []"
    by (simp add: filter_empty_conv)
  have todo: "filter ?P (drop k xs) = drop k xs"
    using disj by (auto simp: filter_id_conv)
  have "filter ?P xs = filter ?P (take k xs @ drop k xs)"
    by (simp only: append_take_drop_id)
  also have "\<dots> = filter ?P (take k xs) @ filter ?P (drop k xs)"
    by (rule filter_append)
  finally show ?thesis
    by (simp only: skipped todo append_Nil)
qed

lemma fresh_remaining:
  "remaining_items fact_sheets
     \<lparr>ck_completed_ids = {}, ck_phase = ph, ck_stats = stt, ck_results = rs\<rparr> None 0
   = fact_sheets"
  by (simp add: remaining_items_def)

lemma main_run_fresh:
  assumes "never_raises ev"
  shows "\<exists>results s' reqs'.
           main_run ev fact_sheets old_content_map False None 0 s reqs = (Inr results, s', reqs')
         \<and> map r_poi_id results = map fs_poi_id fact_sheets
         \<and> results_file s' = Some results"
proof -
  let ?ck = "\<lparr>ck_completed_ids = {}, ck_phase = ''generation'', ck_stats = None,
             ck_results = None\<rparr>"
  let ?run = "run_loop ev old_content_map fact_sheets (initial_run_state ?ck s reqs)"
  from run_loop_results [OF assms, of old_content_map fact_sheets "initial_run_state ?ck s reqs"]
  have ok: "fst ?run = None"
    and ids: "map r_poi_id (rs_results (snd ?run)) = map fs_poi_id fact_sheets"
    by (simp_all add: initial_run_state_def or_default_def)
  from ok obtain st' where run: "?run = (None, st')" by (cases ?run) simp
  show ?thesis
    using ids
    by (simp add: main_run_def run_generation_and_verification_def fresh_remaining run
          finish_run_def Let_def save_checkpoint_def write_to_staging_def)
qed

lemma store_after_first_batch:
  assumes "never_raises ev" and "BATCH_SIZE \<le> length fact_sheets"
  shows "\<exists>ck. checkpoint_file (store_after_items ev fact_sheets old_content_map BATCH_SIZE s reqs)
               = Some ck
            \<and> ck_completed_ids ck = set (map fs_poi_id (take BATCH_SIZE fact_sheets))
            \<and> ck_results ck = None"
proof -
  let ?ck = "\<lparr>ck_completed_ids = {}, ck_phase = ''generation'', ck_stats = None,
             ck_results = None\<rparr>"
  have ne: "take BATCH_SIZE fact_sheets \<noteq> []"
    using assms(2) by (auto simp: BATCH_SIZE_def)
  have len: "length (rs_batch_for_staging (initial_run_state ?ck s reqs))
             + length (take BATCH_SIZE fact_sheets) = BATCH_SIZE"
    using assms(2) by (simp add: initial_run_state_def)
  from run_loop_checkpoint [OF assms(1) ne len, of old_content_map]
  show ?thesis
    by (simp add: store_after_items_def fresh_remaining initial_run_state_def)
qed

lemma main_run_resumed:
  assumes "never_raises ev" and "distinct (map fs_poi_id fact_sheets)"
    and "checkpoint_file s = Some ck"
    and "ck_completed_ids ck = set (map fs_poi_id (take k fact_sheets))"
    and "ck_results ck = None"
  shows "\<exists>results s' reqs'.
           main_run ev fact_sheets old_content_map True None 0 s reqs = (Inr results, s', reqs')
         \<and> map r_poi_id results = map fs_poi_id (drop k fact_sheets)
         \<and> results_file s' = Some results"
proof -
  have rem: "remaining_items fact_sheets ck None 0 = drop k fact_sheets"
    using unprocessed_after_prefix [OF assms(2), of k] assms(4)
    by (simp add: remaining_items_def)
  let ?run = "run_loop ev old_content_map (drop k fact_sheets) (initial_run_state ck s reqs)"
  from run_loop_results [OF assms(1), of old_content_map "drop k fact_sheets"
      "initial_run_state ck s reqs"]
  have ok: "fst ?run = None"
    and ids: "map r_poi_id (rs_results (snd ?run)) = map fs_poi_id (drop k fact_sheets)"
    using assms(5) by (simp_all add: initial_run_state_def or_default_def)
  from ok obtain st' where run: "?run = (None, st')" by (cases ?run) simp
  show ?thesis
    using ids assms(3)
    by (simp add: main_run_def run_generation_and_verification_def load_checkpoint_def rem run
          finish_run_def Let_def save_checkpoint_def write_to_staging_def)
qed


subsection \<open>The run over fifty-one items\<close>

lemma passing_env_never_raises: "never_raises passing_env"
proof -
  have parse: "parse_verification (\<lambda>s. Some pass_judgement) pass_text = Inr pass_judgement"
    by (simp add: parse_verification_def json_object_span_def ensure_verdict_def
          pass_text_def pass_judgement_def startswith_def)
  have ok: "\<exists>r. verified_result fs old_content generated_text word_count retry_count
                  pass_judgement = Inr r"
    for fs old_content generated_text word_count retry_count
    by (simp add: verified_result_def pass_judgement_def dict_get_def status_for_verdict_def
          STATUS_MAP_def recommend_def Let_def)
  have ver: "fst (verification_call passing_env reqs fs generated_text) = pass_text"
    for reqs fs generated_text
    by (simp add: verification_call_def call_mistral_def passing_env_def demo_env_def)
  have loads: "e_json_loads passing_env = (\<lambda>s. Some pass_judgement)"
    by (simp add: passing_env_def demo_env_def)
  show ?thesis
    unfolding never_raises_def process_single_poi_def Let_def
    using ok by (simp add: ver loads parse)
qed

lemma demo_sheets_ids: "map fs_poi_id demo_sheets = [1..51]"
  by (simp add: demo_sheets_def numbered_sheet_def comp_def)

lemma upto_51: "[1..51] = [1..50] @ [51]"
  using upto_rec2 [of 1 51] by simp

lemma demo_sheets_split:
  "map fs_poi_id (take BATCH_SIZE demo_sheets) = [1..50]
   \<and> map fs_poi_id (drop BATCH_SIZE demo_sheets) = [51]"
  by (simp add: BATCH_SIZE_def demo_sheets_ids upto_51 flip: take_map drop_map)

text \<open>
  Claim C4. The runner reads the key \<open>results\<close> of the checkpoint, but no checkpoint it
  saves holds that key. Fifty-one items are processed by a service that never fails.
  The uninterrupted run returns and writes fifty-one results. A run that is killed
  right after the checkpoint at item 50 leaves a checkpoint with the ids 1 to 50 and no
  results. The resumed run skips the fifty completed items, processes item 51, and
  returns and writes one result: the results file holds the result of item 51 only.
\<close>

theorem resume_loses_checkpointed_results:
  "(\<exists>results s' reqs'.
       main_run passing_env demo_sheets (\<lambda>i. None) False None 0 empty_store []
         = (Inr results, s', reqs')
     \<and> map r_poi_id results = [1..51] \<and> results_file s' = Some results)
   \<and> (\<exists>ck. checkpoint_file
              (store_after_items passing_env demo_sheets (\<lambda>i. None) BATCH_SIZE empty_store [])
            = Some ck
          \<and> ck_completed_ids ck = {1..50} \<and> ck_results ck = None)
   \<and> (\<exists>results s' reqs'.
       main_run passing_env demo_sheets (\<lambda>i. None) True None 0
         (store_after_items passing_env demo_sheets (\<lambda>i. None) BATCH_SIZE empty_store []) []
         = (Inr results, s', reqs')
     \<and> map r_poi_id results = [51] \<and> results_file s' = Some results)"
proof -
  note nr = passing_env_never_raises
  have len: "BATCH_SIZE \<le> length demo_sheets"
    by (simp add: BATCH_SIZE_def demo_sheets_def)
  have dist: "distinct (map fs_poi_id demo_sheets)"
    by (simp add: demo_sheets_ids)
  have full: "\<exists>results s' reqs'.
       main_run passing_env demo_sheets (\<lambda>i. None) False None 0 empty_store []
         = (Inr results, s', reqs')
     \<and> map r_poi_id results = [1..51] \<and> results_file s' = Some results"
    using main_run_fresh [OF nr, of demo_sheets "\<lambda>i. None" empty_store "[]"]
    by (simp only: demo_sheets_ids)
  from store_after_first_batch [OF nr len, of "\<lambda>i. None" empty_store "[]"] obtain ck where
    saved: "checkpoint_file
             (store_after_items passing_env demo_sheets (\<lambda>i. None) BATCH_SIZE empty_store [])
           = Some ck"
    and ids: "ck_completed_ids ck = set (map fs_poi_id (take BATCH_SIZE demo_sheets))"
    and none: "ck_results ck = None"
    by blast
  from ids have ids50: "ck_completed_ids ck = {1..50}"
    by (simp only: demo_sheets_split set_upto)
  have crashed: "\<exists>ck. checkpoint_file
              (store_after_items passing_env demo_sheets (\<lambda>i. None) BATCH_SIZE empty_store [])
            = Some ck
          \<and> ck_completed_ids ck = {1..50} \<and> ck_results ck = None"
    using saved ids50 none by blast
  have resumed: "\<exists>results s' reqs'.
       main_run passing_env demo_sheets (\<lambda>i. None) True None 0
         (store_after_items passing_env demo_sheets (\<lambda>i. None) BATCH_SIZE empty_store []) []
         = (Inr results, s', reqs')
     \<and> map r_poi_id results = [51] \<and> results_file s' = Some results"
    using main_run_resumed [OF nr dist saved ids none, of "\<lambda>i. None" "[]"]
    by (simp only: demo_sheets_split)
  from full crashed resumed show ?thesis by blast
qed

end
